theory Spec2Isabelle
  imports Main "HOL-Library.Sublist"
begin

section \<open>Strings\<close>

text \<open>
  A JavaScript string is modelled as a list of characters. The type \<open>char\<close> has 256
  values, so the model covers the strings whose code units are below 256: this is the
  range on which the browser's \<open>btoa\<close> is defined (it raises on any other code unit).
  \<open>toLowerCase\<close> and \<open>toUpperCase\<close> are modelled on the ASCII letters; the regular
  expression class \<open>\w\<close> is ASCII only, and no character outside ASCII lower-cases to a
  letter of an audio extension.
\<close>

definition upper_letters :: string where
  "upper_letters = ''ABCDEFGHIJKLMNOPQRSTUVWXYZ''"

definition lower_letters :: string where
  "lower_letters = ''abcdefghijklmnopqrstuvwxyz''"

definition digit_chars :: string where
  "digit_chars = ''0123456789''"

definition toLowerChar :: "char \<Rightarrow> char" where
  "toLowerChar c = (case map_of (zip upper_letters lower_letters) c of Some d \<Rightarrow> d | None \<Rightarrow> c)"

definition toUpperChar :: "char \<Rightarrow> char" where
  "toUpperChar c = (case map_of (zip lower_letters upper_letters) c of Some d \<Rightarrow> d | None \<Rightarrow> c)"

definition toLowerCase :: "string \<Rightarrow> string" where
  "toLowerCase s = map toLowerChar s"

text \<open>\<open>s.endsWith(ext)\<close>.\<close>

definition endsWith :: "string \<Rightarrow> string \<Rightarrow> bool" where
  "endsWith s ext = suffix ext s"

text \<open>The class \<open>\w\<close> of a regular expression without the unicode flag: \<open>[A-Za-z0-9_]\<close>.\<close>

definition is_word_char :: "char \<Rightarrow> bool" where
  "is_word_char c = (c \<in> set (upper_letters @ lower_letters @ digit_chars @ ''_''))"

section \<open>The remote content listing\<close>

text \<open>
  \<open>GitHubContent\<close> of githubService.ts. \<open>download_url\<close> is \<open>string | null\<close>;
  \<open>size\<close> is a number.
\<close>

record GitHubContent =
  c_name :: string
  c_path :: string
  c_type :: string
  c_download_url :: "string option"
  c_size :: nat

datatype error =
    InvalidLocationFormat
  | AlreadyImported
  | NoPlayableContent
  | NetworkFailure
  | GitHubApiError nat
  | StorageError

text \<open>
  What \<open>fetch(url)\<close> followed by \<open>response.json()\<close> gives: the request is rejected, the
  response is not ok (with its status), or the body is a JSON array or a single object.
\<close>

datatype http_response =
    Rejected
  | NotOk nat
  | JsonArray "GitHubContent list"
  | JsonObject GitHubContent

type_synonym network = "string \<Rightarrow> http_response"

text \<open>
  The ambient browser state a call of a handler reads: \<open>window.location.origin\<close>, the
  clock and the network behind \<open>fetch\<close>. A handler evaluates \<open>new Date()\<close> at most once in
  a call, and \<open>new_Date\<close> is what it gives. \<open>Date.now()\<close> is evaluated once for every song
  of an import, each time after the writes before it have been awaited:
  \<open>Date_now k\<close> is what its evaluation number \<open>k\<close> of the call gives (counted from 0).
  Nothing is assumed about these readings.
\<close>

record browser =
  location_origin :: string
  new_Date :: nat
  Date_now :: "nat \<Rightarrow> nat"
  fetch :: network

definition contents_url :: "string \<Rightarrow> string \<Rightarrow> string \<Rightarrow> string" where
  "contents_url owner repo path =
     ''https://api.github.com/repos/'' @ owner @ ''/'' @ repo @ ''/contents/'' @ path"

definition fetchRepositoryContents ::
  "browser \<Rightarrow> string \<Rightarrow> string \<Rightarrow> string \<Rightarrow> error + GitHubContent list" where
  "fetchRepositoryContents b owner repo path =
     (case fetch b (contents_url owner repo path) of
        Rejected \<Rightarrow> Inl NetworkFailure
      | NotOk status \<Rightarrow> Inl (GitHubApiError status)
      | JsonArray data \<Rightarrow> Inr data
      | JsonObject d \<Rightarrow> Inr [d])"

section \<open>GitHubService: the scanner\<close>

definition AUDIO_EXTENSIONS :: "string list" where
  "AUDIO_EXTENSIONS = [''.mp3'', ''.wav'', ''.flac'', ''.aac'', ''.ogg'', ''.m4a'', ''.wma'']"

text \<open>\<open>filename.replace(/\.[^/.]+$/, '')\<close>: the leftmost dot that is followed, up to the
  end of the string, by one or more characters other than \<open>/\<close> and \<open>.\<close> is removed
  together with what follows it.\<close>

fun strip_extension :: "string \<Rightarrow> string" where
  "strip_extension [] = []"
| "strip_extension (c # cs) =
     (if c = CHR ''.'' \<and> cs \<noteq> [] \<and> list_all (\<lambda>d. d \<noteq> CHR ''/'' \<and> d \<noteq> CHR ''.'') cs
      then []
      else c # strip_extension cs)"

text \<open>\<open>s.replace(/[_-]/g, ' ')\<close>.\<close>

definition replace_separators :: "string \<Rightarrow> string" where
  "replace_separators s = map (\<lambda>c. if c = CHR ''_'' \<or> c = CHR ''-'' then CHR '' '' else c) s"

text \<open>\<open>s.replace(/\b\w/g, l => l.toUpperCase())\<close>: a word character is replaced when the
  character before it is not a word character (or it is the first one). The flag says
  whether the previous character was a word character.\<close>

fun capitalize_from :: "bool \<Rightarrow> string \<Rightarrow> string" where
  "capitalize_from prev [] = []"
| "capitalize_from prev (c # cs) =
     (if is_word_char c \<and> \<not> prev then toUpperChar c else c) # capitalize_from (is_word_char c) cs"

definition capitalize_words :: "string \<Rightarrow> string" where
  "capitalize_words s = capitalize_from False s"

definition extractSongTitle :: "string \<Rightarrow> string" where
  "extractSongTitle filename =
     (let nameWithoutExt = strip_extension filename;
          cleaned = replace_separators nameWithoutExt
      in capitalize_words cleaned)"

definition formatPlaylistName :: "string \<Rightarrow> string" where
  "formatPlaylistName dirname =
     (let cleaned = replace_separators dirname
      in capitalize_words cleaned)"

record ScannedSong =
  s_name :: string
  s_path :: string
  s_downloadUrl :: string
  s_size :: nat

record ScannedPlaylist =
  p_name :: string
  p_path :: string
  p_songs :: "ScannedSong list"

definition isAudioFile :: "GitHubContent \<Rightarrow> bool" where
  "isAudioFile item =
     (c_type item = ''file'' \<and>
      list_ex (\<lambda>ext. endsWith (toLowerCase (c_name item)) ext) AUDIO_EXTENSIONS)"

text \<open>\<open>if (file.download_url)\<close>: null and the empty string are falsy.\<close>

definition truthy :: "string option \<Rightarrow> bool" where
  "truthy u = (case u of None \<Rightarrow> False | Some s \<Rightarrow> s \<noteq> [])"

text \<open>The loop over \<open>audioFiles\<close>, pushing onto \<open>songs\<close>.\<close>

fun addSongs :: "GitHubContent list \<Rightarrow> ScannedSong list \<Rightarrow> ScannedSong list" where
  "addSongs [] songs = songs"
| "addSongs (file # rest) songs =
     (case c_download_url file of
        None \<Rightarrow> addSongs rest songs
      | Some url \<Rightarrow>
          if url \<noteq> []
          then addSongs rest (songs @
                 [\<lparr>s_name = extractSongTitle (c_name file),
                   s_path = c_path file,
                   s_downloadUrl = url,
                   s_size = c_size file\<rparr>])
          else addSongs rest songs)"

text \<open>The loop over \<open>directories\<close>, pushing onto \<open>playlists\<close>. A failed listing of a
  directory is caught inside the loop, which goes on with the next directory.\<close>

fun scanDirectories ::
  "browser \<Rightarrow> string \<Rightarrow> string \<Rightarrow> GitHubContent list \<Rightarrow> ScannedPlaylist list
     \<Rightarrow> ScannedPlaylist list" where
  "scanDirectories b owner repo [] playlists = playlists"
| "scanDirectories b owner repo (dir # dirs) playlists =
     (case fetchRepositoryContents b owner repo (c_path dir) of
        Inl e \<Rightarrow> scanDirectories b owner repo dirs playlists
      | Inr dirContents \<Rightarrow>
          (let audioFiles = filter isAudioFile dirContents;
               songs = addSongs audioFiles []
           in if length songs > 0
              then scanDirectories b owner repo dirs (playlists @
                     [\<lparr>p_name = formatPlaylistName (c_name dir),
                       p_path = c_path dir,
                       p_songs = songs\<rparr>])
              else scanDirectories b owner repo dirs playlists))"

definition scanRepositoryStructure ::
  "browser \<Rightarrow> string \<Rightarrow> string \<Rightarrow> error + ScannedPlaylist list" where
  "scanRepositoryStructure b owner repo =
     (case fetchRepositoryContents b owner repo [] of
        Inl e \<Rightarrow> Inl e
      | Inr rootContents \<Rightarrow>
          (let directories = filter (\<lambda>item. c_type item = ''dir'') rootContents
           in Inr (scanDirectories b owner repo directories [])))"

section \<open>GitHubService: the unique link\<close>

text \<open>
  The browser's \<open>btoa\<close>: base64 (RFC 4648, with padding) of the string's code units read
  as bytes.
\<close>

definition base64_alphabet :: string where
  "base64_alphabet = upper_letters @ lower_letters @ digit_chars @ ''+/''"

definition b64 :: "nat \<Rightarrow> char" where
  "b64 n = base64_alphabet ! (n mod 64)"

fun btoa_bytes :: "nat list \<Rightarrow> string" where
  "btoa_bytes [] = []"
| "btoa_bytes [x] = [b64 (x div 4), b64 ((x mod 4) * 16), CHR ''='', CHR ''='']"
| "btoa_bytes [x, y] =
     [b64 (x div 4), b64 ((x mod 4) * 16 + y div 16), b64 ((y mod 16) * 4), CHR ''='']"
| "btoa_bytes (x # y # z # rest) =
     [b64 (x div 4), b64 ((x mod 4) * 16 + y div 16), b64 ((y mod 16) * 4 + z div 64),
      b64 (z mod 64)] @ btoa_bytes rest"

definition btoa :: "string \<Rightarrow> string" where
  "btoa s = btoa_bytes (map of_char s)"

definition generateUniqueLink :: "browser \<Rightarrow> string \<Rightarrow> string \<Rightarrow> string \<Rightarrow> string" where
  "generateUniqueLink b owner repo filePath =
     (let encoded = btoa (owner @ ''/'' @ repo @ ''/'' @ filePath)
      in location_origin b @ ''/play/'' @ encoded)"

section \<open>Repository URLs\<close>

text \<open>\<open>s.trim()\<close>: white space and line terminators are removed from both ends (tab,
  line feed, vertical tab, form feed, carriage return, space, no-break space).\<close>

definition is_space :: "char \<Rightarrow> bool" where
  "is_space c = (c \<in> set [CHR 0x09, CHR 0x0A, CHR 0x0B, CHR 0x0C, CHR 0x0D, CHR 0x20, CHR 0xA0])"

definition trim :: "string \<Rightarrow> string" where
  "trim s = rev (dropWhile is_space (rev (dropWhile is_space s)))"

text \<open>The class \<open>[\w\-\.]\<close>.\<close>

definition is_repo_char :: "char \<Rightarrow> bool" where
  "is_repo_char c = (is_word_char c \<or> c = CHR ''-'' \<or> c = CHR ''.'')"

text \<open>\<open>/^https:\/\/github\.com\/[\w\-\.]+\/[\w\-\.]+/.test(s)\<close> of
  AddStreamingLinkModal.handleSubmit. The slash is not in the class, so the first run is
  the longest one and must be followed by a slash and one character of the class.\<close>

definition githubUrlPattern_test :: "string \<Rightarrow> bool" where
  "githubUrlPattern_test s =
     (prefix ''https://github.com/'' s \<and>
      (let rest = drop 19 s
       in takeWhile is_repo_char rest \<noteq> [] \<and>
          (case dropWhile is_repo_char rest of
             c1 # c2 # cs \<Rightarrow> c1 = CHR ''/'' \<and> is_repo_char c2
           | _ \<Rightarrow> False)))"

text \<open>The groups \<open>([^\/]+)\/([^\/]+)\<close> matched at the start of a string: the longest
  run without a slash, a slash, and the longest run without a slash, both runs non-empty.\<close>

definition match_owner_repo :: "string \<Rightarrow> (string \<times> string) option" where
  "match_owner_repo s =
     (let owner = takeWhile (\<lambda>c. c \<noteq> CHR ''/'') s;
          after = dropWhile (\<lambda>c. c \<noteq> CHR ''/'') s
      in case after of
           [] \<Rightarrow> None
         | slash # cs \<Rightarrow>
             (let repo = takeWhile (\<lambda>c. c \<noteq> CHR ''/'') cs
              in if owner \<noteq> [] \<and> repo \<noteq> [] then Some (owner, repo) else None))"

text \<open>\<open>url.match(/github\.com\/([^\/]+)\/([^\/]+)/)\<close>: the leftmost position at which
  the expression matches.\<close>

fun match_github :: "string \<Rightarrow> (string \<times> string) option" where
  "match_github [] = None"
| "match_github (c # cs) =
     (if prefix ''github.com/'' (c # cs)
      then (case match_owner_repo (drop 11 (c # cs)) of
              Some groups \<Rightarrow> Some groups
            | None \<Rightarrow> match_github cs)
      else match_github cs)"

text \<open>\<open>repo.replace(/\.git$/, '')\<close>.\<close>

definition strip_git :: "string \<Rightarrow> string" where
  "strip_git repo = (if suffix ''.git'' repo then take (length repo - 4) repo else repo)"

definition parseGitHubUrl :: "string \<Rightarrow> (string \<times> string) option" where
  "parseGitHubUrl url =
     (case match_github url of
        None \<Rightarrow> None
      | Some (owner, repo) \<Rightarrow> Some (owner, strip_git repo))"

definition generateSourceName :: "string \<Rightarrow> string" where
  "generateSourceName githubUrl =
     (case parseGitHubUrl githubUrl of
        None \<Rightarrow> ''Unknown Repository''
      | Some (owner, repo) \<Rightarrow> owner @ ''/'' @ repo)"

text \<open>A number in a template literal: its decimal digits.\<close>

fun string_of_nat :: "nat \<Rightarrow> string" where
  "string_of_nat n =
     (if n < 10 then [digit_chars ! n]
      else string_of_nat (n div 10) @ [digit_chars ! (n mod 10)])"

declare string_of_nat.simps [simp del]

section \<open>The store\<close>

text \<open>
  The tables \<open>streaming_sources\<close>, \<open>playlists\<close> and \<open>songs\<close> of the migrations, with the
  columns the import and refresh paths read or write. A uuid is a number; the store
  gives each new row the next one. Time stamps are numbers (milliseconds).

  \<open>songs.unique_link\<close> is \<open>UNIQUE\<close>: the store refuses a song whose link another row has.
  Every other reason for which the store does not apply a write (a policy of the row-level
  security, a foreign key, a lost connection) is outside these paths' control and is
  given by \<open>faults\<close>: each write takes the next flag of the list, and a write whose flag
  is \<open>True\<close> is not applied. An empty list means that nothing goes wrong any more.
  Reads always succeed.
\<close>

type_synonym uuid = nat

record streaming_source =
  src_id :: uuid
  src_name :: string
  drive_link :: string
  created_by :: "string option"
  last_synced :: nat

record playlist =
  pl_id :: uuid
  user_id :: string
  source_id :: uuid
  pl_name :: string
  folder_path :: string

record song =
  song_id :: uuid
  playlist_id :: uuid
  title :: string
  duration :: nat
  file_path :: string
  unique_link :: string

record store =
  streaming_sources :: "streaming_source list"
  playlists :: "playlist list"
  songs :: "song list"
  next_uuid :: uuid
  faults :: "bool list"

definition next_fault :: "store \<Rightarrow> bool \<times> store" where
  "next_fault st =
     (case faults st of
        [] \<Rightarrow> (False, st)
      | f # fs \<Rightarrow> (f, st\<lparr>faults := fs\<rparr>))"

text \<open>\<open>from('streaming_sources').select(...).eq('drive_link', link)\<close>.\<close>

definition select_sources :: "store \<Rightarrow> string \<Rightarrow> streaming_source list" where
  "select_sources st link = filter (\<lambda>s. drive_link s = link) (streaming_sources st)"

text \<open>The same with \<open>playlists!inner(...)\<close> and \<open>.eq('playlists.user_id', user)\<close>: the
  sources with that link that have a playlist of that user.\<close>

definition select_sources_of_user :: "store \<Rightarrow> string \<Rightarrow> string \<Rightarrow> streaming_source list" where
  "select_sources_of_user st link user =
     filter (\<lambda>s. drive_link s = link \<and>
                 list_ex (\<lambda>p. source_id p = src_id s \<and> user_id p = user) (playlists st))
       (streaming_sources st)"

text \<open>\<open>from('playlists').select(...).eq('source_id', sid).eq('user_id', user)\<close>.\<close>

definition select_playlists :: "store \<Rightarrow> uuid \<Rightarrow> string \<Rightarrow> playlist list" where
  "select_playlists st sid user =
     filter (\<lambda>p. source_id p = sid \<and> user_id p = user) (playlists st)"

text \<open>\<open>from('songs').select(...).eq('unique_link', link).single()\<close>: the row when there
  is exactly one, no data otherwise.\<close>

definition select_song_single :: "store \<Rightarrow> string \<Rightarrow> song option" where
  "select_song_single st link =
     (case filter (\<lambda>s. unique_link s = link) (songs st) of
        [s] \<Rightarrow> Some s
      | _ \<Rightarrow> None)"

definition insert_source ::
  "string \<Rightarrow> string \<Rightarrow> string \<Rightarrow> nat \<Rightarrow> store \<Rightarrow> (error + streaming_source) \<times> store" where
  "insert_source name link user now st =
     (case next_fault st of (bad, st1) \<Rightarrow>
        if bad then (Inl StorageError, st1)
        else (let row = \<lparr>src_id = next_uuid st1, src_name = name, drive_link = link,
                         created_by = Some user, last_synced = now\<rparr>
              in (Inr row, st1\<lparr>streaming_sources := streaming_sources st1 @ [row],
                               next_uuid := next_uuid st1 + 1\<rparr>)))"

definition insert_playlist ::
  "string \<Rightarrow> uuid \<Rightarrow> string \<Rightarrow> string \<Rightarrow> store \<Rightarrow> (error + playlist) \<times> store" where
  "insert_playlist user sid name path st =
     (case next_fault st of (bad, st1) \<Rightarrow>
        if bad then (Inl StorageError, st1)
        else (let row = \<lparr>pl_id = next_uuid st1, user_id = user, source_id = sid,
                         pl_name = name, folder_path = path\<rparr>
              in (Inr row, st1\<lparr>playlists := playlists st1 @ [row],
                               next_uuid := next_uuid st1 + 1\<rparr>)))"

definition insert_song ::
  "uuid \<Rightarrow> string \<Rightarrow> nat \<Rightarrow> string \<Rightarrow> string \<Rightarrow> store \<Rightarrow> (error + song) \<times> store" where
  "insert_song pid ttl dur fpath link st =
     (case next_fault st of (bad, st1) \<Rightarrow>
        if bad \<or> link \<in> set (map unique_link (songs st1)) then (Inl StorageError, st1)
        else (let row = \<lparr>song_id = next_uuid st1, playlist_id = pid, title = ttl,
                         duration = dur, file_path = fpath, unique_link = link\<rparr>
              in (Inr row, st1\<lparr>songs := songs st1 @ [row],
                               next_uuid := next_uuid st1 + 1\<rparr>)))"

text \<open>\<open>from('songs').update({ playlist_id: pid }).eq('id', sid)\<close>.\<close>

definition update_song_playlist :: "uuid \<Rightarrow> uuid \<Rightarrow> store \<Rightarrow> bool \<times> store" where
  "update_song_playlist sid pid st =
     (case next_fault st of (bad, st1) \<Rightarrow>
        if bad then (False, st1)
        else (True, st1\<lparr>songs := map (\<lambda>s. if song_id s = sid then s\<lparr>playlist_id := pid\<rparr> else s)
                                     (songs st1)\<rparr>))"

text \<open>\<open>from('streaming_sources').update({ last_synced: now }).eq('id', sid)\<close>.\<close>

definition update_last_synced :: "uuid \<Rightarrow> nat \<Rightarrow> store \<Rightarrow> bool \<times> store" where
  "update_last_synced sid now st =
     (case next_fault st of (bad, st1) \<Rightarrow>
        if bad then (False, st1)
        else (True, st1\<lparr>streaming_sources :=
                          map (\<lambda>s. if src_id s = sid then s\<lparr>last_synced := now\<rparr> else s)
                            (streaming_sources st1)\<rparr>))"

section \<open>AddStreamingLinkModal: importing one repository\<close>

text \<open>
  The signed-in user is given by \<open>user.id\<close>. A handler returns what it reports (the error
  it shows, or its counts) and the store it leaves.
\<close>

text \<open>Find or create the streaming source; \<open>link\<close> is \<open>githubLink.trim()\<close>.\<close>

definition AddStreamingLink_findOrCreateSource ::
  "browser \<Rightarrow> string \<Rightarrow> string \<Rightarrow> string \<Rightarrow> store \<Rightarrow> (error + streaming_source) \<times> store" where
  "AddStreamingLink_findOrCreateSource b user name link st =
     (case select_sources st link of
        sourceData # others \<Rightarrow> (Inr sourceData, st)
      | [] \<Rightarrow> insert_source (trim name) link user (new_Date b) st)"

text \<open>The loop over \<open>playlist.songs\<close>: every song is inserted as a new row whose
  \<open>unique_link\<close> is the generated link followed by the user and \<open>Date.now()\<close>, which is
  evaluated for this song. \<open>evaluations\<close> counts the evaluations of \<open>Date.now()\<close> made so
  far in the call.\<close>

fun AddStreamingLink_createSongs ::
  "browser \<Rightarrow> string \<Rightarrow> string \<Rightarrow> string \<Rightarrow> uuid \<Rightarrow> ScannedSong list \<Rightarrow> nat \<Rightarrow> nat \<Rightarrow> store
     \<Rightarrow> nat \<times> store" where
  "AddStreamingLink_createSongs b user owner repo playlistId [] evaluations totalSongsCreated st =
     (totalSongsCreated, st)"
| "AddStreamingLink_createSongs b user owner repo playlistId (song # rest) evaluations
       totalSongsCreated st =
     (let uniqueLink = generateUniqueLink b owner repo (s_path song)
      in case insert_song playlistId (s_name song) 180 (s_downloadUrl song)
                (uniqueLink @ ''_'' @ user @ ''_'' @ string_of_nat (Date_now b evaluations)) st of
           (Inl songError, st1) \<Rightarrow>
             AddStreamingLink_createSongs b user owner repo playlistId rest (evaluations + 1)
               totalSongsCreated st1
         | (Inr row, st1) \<Rightarrow>
             AddStreamingLink_createSongs b user owner repo playlistId rest (evaluations + 1)
               (totalSongsCreated + 1) st1)"

text \<open>The loop over the scanned playlists; the totals are
  \<open>(totalPlaylistsCreated, totalSongsCreated)\<close>. The song loop of a playlist evaluates
  \<open>Date.now()\<close> once for each of its songs.\<close>

fun AddStreamingLink_createPlaylists ::
  "browser \<Rightarrow> string \<Rightarrow> uuid \<Rightarrow> string \<Rightarrow> string \<Rightarrow> ScannedPlaylist list \<Rightarrow> nat \<Rightarrow> nat \<times> nat
     \<Rightarrow> store \<Rightarrow> (nat \<times> nat) \<times> store" where
  "AddStreamingLink_createPlaylists b user sourceId owner repo [] evaluations totals st =
     (totals, st)"
| "AddStreamingLink_createPlaylists b user sourceId owner repo (playlist # rest) evaluations
       totals st =
     (case insert_playlist user sourceId (p_name playlist) (p_path playlist) st of
        (Inl playlistError, st1) \<Rightarrow>
          AddStreamingLink_createPlaylists b user sourceId owner repo rest evaluations totals st1
      | (Inr playlistData, st1) \<Rightarrow>
          (case (if length (p_songs playlist) > 0
                 then AddStreamingLink_createSongs b user owner repo (pl_id playlistData)
                        (p_songs playlist) evaluations (snd totals) st1
                 else (snd totals, st1)) of
             (totalSongsCreated, st2) \<Rightarrow>
               AddStreamingLink_createPlaylists b user sourceId owner repo rest
                 (evaluations + length (p_songs playlist)) (fst totals + 1, totalSongsCreated)
                 st2))"

definition AddStreamingLink_handleSubmit ::
  "browser \<Rightarrow> string \<Rightarrow> string \<Rightarrow> string \<Rightarrow> store \<Rightarrow> (error + nat \<times> nat) \<times> store" where
  "AddStreamingLink_handleSubmit b user name githubLink st =
     (if \<not> githubUrlPattern_test (trim githubLink) then (Inl InvalidLocationFormat, st)
      else case parseGitHubUrl (trim githubLink) of
        None \<Rightarrow> (Inl InvalidLocationFormat, st)
      | Some (owner, repo) \<Rightarrow>
          if select_sources_of_user st (trim githubLink) user \<noteq> []
          then (Inl AlreadyImported, st)
          else (case AddStreamingLink_findOrCreateSource b user name (trim githubLink) st of
                  (Inl sourceError, st1) \<Rightarrow> (Inl sourceError, st1)
                | (Inr sourceData, st1) \<Rightarrow>
                    (case scanRepositoryStructure b owner repo of
                       Inl scanError \<Rightarrow> (Inl scanError, st1)
                     | Inr found \<Rightarrow>
                         if length found = 0 then (Inl NoPlayableContent, st1)
                         else (case AddStreamingLink_createPlaylists b user (src_id sourceData)
                                      owner repo found 0 (0, 0) st1 of
                                 (totals, st2) \<Rightarrow> (Inr totals, st2)))))"

section \<open>AdminBulkImportModal: importing a list of repositories\<close>

definition AdminBulkImport_findOrCreateSong ::
  "browser \<Rightarrow> ScannedSong \<Rightarrow> uuid \<Rightarrow> string \<times> string \<Rightarrow> store \<Rightarrow> uuid option \<times> store" where
  "AdminBulkImport_findOrCreateSong b songData playlistId repoInfo st =
     (let uniqueLink = generateUniqueLink b (fst repoInfo) (snd repoInfo) (s_path songData)
      in case select_song_single st uniqueLink of
           Some existingSong \<Rightarrow>
             (case update_song_playlist (song_id existingSong) playlistId st of
                (applied, st1) \<Rightarrow> (Some (song_id existingSong), st1))
         | None \<Rightarrow>
             (case insert_song playlistId (s_name songData) 180 (s_downloadUrl songData)
                     uniqueLink st of
                (Inl insertError, st1) \<Rightarrow> (None, st1)
              | (Inr newSong, st1) \<Rightarrow> (Some (song_id newSong), st1)))"

fun AdminBulkImport_createSongs ::
  "browser \<Rightarrow> uuid \<Rightarrow> string \<times> string \<Rightarrow> ScannedSong list \<Rightarrow> nat \<Rightarrow> store \<Rightarrow> nat \<times> store" where
  "AdminBulkImport_createSongs b playlistId repoInfo [] songsCreated st = (songsCreated, st)"
| "AdminBulkImport_createSongs b playlistId repoInfo (song # rest) songsCreated st =
     (case AdminBulkImport_findOrCreateSong b song playlistId repoInfo st of
        (Some songId, st1) \<Rightarrow>
          AdminBulkImport_createSongs b playlistId repoInfo rest (songsCreated + 1) st1
      | (None, st1) \<Rightarrow>
          AdminBulkImport_createSongs b playlistId repoInfo rest songsCreated st1)"

fun AdminBulkImport_createPlaylists ::
  "browser \<Rightarrow> string \<Rightarrow> uuid \<Rightarrow> string \<times> string \<Rightarrow> ScannedPlaylist list \<Rightarrow> nat \<Rightarrow> store
     \<Rightarrow> nat \<times> store" where
  "AdminBulkImport_createPlaylists b user sourceId repoInfo [] totalPlaylistsCreated st =
     (totalPlaylistsCreated, st)"
| "AdminBulkImport_createPlaylists b user sourceId repoInfo (playlist # rest) totalPlaylistsCreated st =
     (case insert_playlist user sourceId (p_name playlist) (p_path playlist) st of
        (Inl playlistError, st1) \<Rightarrow>
          AdminBulkImport_createPlaylists b user sourceId repoInfo rest totalPlaylistsCreated st1
      | (Inr playlistData, st1) \<Rightarrow>
          (case AdminBulkImport_createSongs b (pl_id playlistData) repoInfo (p_songs playlist) 0 st1 of
             (songsCreated, st2) \<Rightarrow>
               AdminBulkImport_createPlaylists b user sourceId repoInfo rest
                 (if songsCreated > 0 then totalPlaylistsCreated + 1 else totalPlaylistsCreated)
                 st2))"

text \<open>
  The body of the loop of \<open>handleSubmit\<close> over \<open>githubUrls\<close>, for one url: the status it
  records for the url (an error, or success with the playlist count) and the store. The
  loop runs this body for one url after the other; an error of one url is recorded and
  the loop goes on.
\<close>

definition AdminBulkImport_processRepository ::
  "browser \<Rightarrow> string \<Rightarrow> string \<Rightarrow> store \<Rightarrow> (error + nat) \<times> store" where
  "AdminBulkImport_processRepository b user url st =
     (case (case select_sources st (trim url) of
              sourceData # others \<Rightarrow> (Inr sourceData, st)
            | [] \<Rightarrow>
                (case parseGitHubUrl url of
                   None \<Rightarrow> (Inl InvalidLocationFormat, st)
                 | Some repoInfo \<Rightarrow>
                     insert_source (generateSourceName url) (trim url) user (new_Date b) st)) of
        (Inl sourceError, st1) \<Rightarrow> (Inl sourceError, st1)
      | (Inr sourceData, st1) \<Rightarrow>
          (case parseGitHubUrl url of
             None \<Rightarrow> (Inl InvalidLocationFormat, st1)
           | Some repoInfo \<Rightarrow>
               (case scanRepositoryStructure b (fst repoInfo) (snd repoInfo) of
                  Inl scanError \<Rightarrow> (Inl scanError, st1)
                | Inr found \<Rightarrow>
                    if length found = 0 then (Inl NoPlayableContent, st1)
                    else (case AdminBulkImport_createPlaylists b user (src_id sourceData)
                                 repoInfo found 0 st1 of
                            (totalPlaylistsCreated, st2) \<Rightarrow> (Inr totalPlaylistsCreated, st2)))))"

section \<open>LibraryPage: refreshing a source\<close>

record song_data =
  sd_title :: string
  sd_duration :: nat
  sd_file_path :: string
  sd_unique_link :: string

definition LibraryPage_findOrCreateSong ::
  "uuid \<Rightarrow> song_data \<Rightarrow> store \<Rightarrow> (error + song option) \<times> store" where
  "LibraryPage_findOrCreateSong playlistId songData st =
     (case select_song_single st (sd_unique_link songData) of
        Some existingSong \<Rightarrow>
          if playlist_id existingSong = playlistId
          then (Inr (Some existingSong), st)
          else (Inr None, st)
      | None \<Rightarrow>
          (case insert_song playlistId (sd_title songData) (sd_duration songData)
                  (sd_file_path songData) (sd_unique_link songData) st of
             (Inl insertError, st1) \<Rightarrow> (Inl insertError, st1)
           | (Inr newSong, st1) \<Rightarrow> (Inr (Some newSong), st1)))"

fun LibraryPage_addSongs ::
  "browser \<Rightarrow> string \<Rightarrow> string \<Rightarrow> uuid \<Rightarrow> ScannedSong list \<Rightarrow> nat \<Rightarrow> store \<Rightarrow> nat \<times> store" where
  "LibraryPage_addSongs b owner repo playlistId [] addedSongsCount st = (addedSongsCount, st)"
| "LibraryPage_addSongs b owner repo playlistId (song # rest) addedSongsCount st =
     (let uniqueLink = generateUniqueLink b owner repo (s_path song);
          songData = \<lparr>sd_title = s_name song, sd_duration = 180,
                      sd_file_path = s_downloadUrl song, sd_unique_link = uniqueLink\<rparr>
      in case LibraryPage_findOrCreateSong playlistId songData st of
           (Inr (Some result), st1) \<Rightarrow>
             LibraryPage_addSongs b owner repo playlistId rest (addedSongsCount + 1) st1
         | (Inr None, st1) \<Rightarrow>
             LibraryPage_addSongs b owner repo playlistId rest addedSongsCount st1
         | (Inl songError, st1) \<Rightarrow>
             LibraryPage_addSongs b owner repo playlistId rest addedSongsCount st1)"

fun LibraryPage_addPlaylists ::
  "browser \<Rightarrow> string \<Rightarrow> uuid \<Rightarrow> string \<Rightarrow> string \<Rightarrow> ScannedPlaylist list \<Rightarrow> nat \<Rightarrow> store
     \<Rightarrow> nat \<times> store" where
  "LibraryPage_addPlaylists b user sourceId owner repo [] addedSongsCount st = (addedSongsCount, st)"
| "LibraryPage_addPlaylists b user sourceId owner repo (playlist # rest) addedSongsCount st =
     (case insert_playlist user sourceId (p_name playlist) (p_path playlist) st of
        (Inl playlistError, st1) \<Rightarrow>
          LibraryPage_addPlaylists b user sourceId owner repo rest addedSongsCount st1
      | (Inr playlistData, st1) \<Rightarrow>
          (case LibraryPage_addSongs b owner repo (pl_id playlistData) (p_songs playlist)
                  addedSongsCount st1 of
             (count, st2) \<Rightarrow> LibraryPage_addPlaylists b user sourceId owner repo rest count st2))"

text \<open>What the handler tells the user when it does not fail: that there is nothing new, or
  how many playlists and songs it added.\<close>

datatype refresh_report = NoNewPlaylists | AddedPlaylists nat nat

definition LibraryPage_handleRefreshSource ::
  "browser \<Rightarrow> string \<Rightarrow> streaming_source \<Rightarrow> store \<Rightarrow> (error + refresh_report) \<times> store" where
  "LibraryPage_handleRefreshSource b user source st =
     (case parseGitHubUrl (drive_link source) of
        None \<Rightarrow> (Inl InvalidLocationFormat, st)
      | Some (owner, repo) \<Rightarrow>
          (case scanRepositoryStructure b owner repo of
             Inl scanError \<Rightarrow> (Inl scanError, st)
           | Inr newPlaylists \<Rightarrow>
               (let existingPlaylists = select_playlists st (src_id source) user;
                    existingPaths = map folder_path existingPlaylists;
                    newPlaylistsToAdd = filter (\<lambda>p. p_path p \<notin> set existingPaths) newPlaylists
                in if length newPlaylistsToAdd = 0 then (Inr NoNewPlaylists, st)
                   else (case LibraryPage_addPlaylists b user (src_id source) owner repo
                                newPlaylistsToAdd 0 st of
                           (addedSongsCount, st1) \<Rightarrow>
                             (case update_last_synced (src_id source) (new_Date b) st1 of
                                (applied, st2) \<Rightarrow>
                                  (Inr (AddedPlaylists (length newPlaylistsToAdd) addedSongsCount),
                                   st2))))))"

section \<open>Sequences of operations\<close>




section \<open>What the scanner computes\<close>

text \<open>
  The songs one listed file contributes (none or one), the songs of a directory listing,
  and the playlists one root directory contributes (none or one). The loops of the scanner
  are shown below to compute the concatenation of these.
\<close>

definition file_songs :: "GitHubContent \<Rightarrow> ScannedSong list" where
  "file_songs file =
     (case c_download_url file of
        None \<Rightarrow> []
      | Some url \<Rightarrow>
          if url \<noteq> []
          then [\<lparr>s_name = extractSongTitle (c_name file), s_path = c_path file,
                 s_downloadUrl = url, s_size = c_size file\<rparr>]
          else [])"

definition listing_songs :: "GitHubContent list \<Rightarrow> ScannedSong list" where
  "listing_songs dirContents = concat (map file_songs (filter isAudioFile dirContents))"

definition directory_playlists ::
  "browser \<Rightarrow> string \<Rightarrow> string \<Rightarrow> GitHubContent \<Rightarrow> ScannedPlaylist list" where
  "directory_playlists b owner repo dir =
     (case fetchRepositoryContents b owner repo (c_path dir) of
        Inl e \<Rightarrow> []
      | Inr dirContents \<Rightarrow>
          if listing_songs dirContents \<noteq> []
          then [\<lparr>p_name = formatPlaylistName (c_name dir), p_path = c_path dir,
                 p_songs = listing_songs dirContents\<rparr>]
          else [])"

section \<open>Title case\<close>




section \<open>What the single import stores\<close>

text \<open>
  The \<open>unique_link\<close> the single import gives the row of a scanned song when
  \<open>Date.now()\<close> is at its evaluation number \<open>k\<close>; the links of the songs of a playlist, in
  order, the first one at evaluation \<open>k\<close>; and the links of all songs of a catalog.
\<close>

definition stored_link :: "browser \<Rightarrow> string \<Rightarrow> string \<Rightarrow> string \<Rightarrow> nat \<Rightarrow> ScannedSong \<Rightarrow> string" where
  "stored_link b user owner repo k song =
     generateUniqueLink b owner repo (s_path song) @ ''_'' @ user @ ''_'' @
     string_of_nat (Date_now b k)"

fun song_links :: "browser \<Rightarrow> string \<Rightarrow> string \<Rightarrow> string \<Rightarrow> nat \<Rightarrow> ScannedSong list \<Rightarrow> string list" where
  "song_links b user owner repo k [] = []"
| "song_links b user owner repo k (song # rest) =
     stored_link b user owner repo k song # song_links b user owner repo (k + 1) rest"


section \<open>An invariant of the store\<close>


section \<open>Example data\<close>

definition browser_a :: browser where
  "browser_a = \<lparr>location_origin = ''https://music.example'', new_Date = 1000,
                 Date_now = (\<lambda>k. 1000 + k),
                 fetch = (\<lambda>url. Rejected)\<rparr>"

definition browser_b :: browser where
  "browser_b = \<lparr>location_origin = ''https://music.example'', new_Date = 2000,
                 Date_now = (\<lambda>k. 2000 + k),
                 fetch = (\<lambda>url. JsonArray [])\<rparr>"

text \<open>
  The repository \<open>al/m\<close>: the directory \<open>Rock_Hits\<close> of the specification's example, a
  directory whose listing fails, a second directory with audio, an empty directory, a
  directory whose only audio file has no download url, and a file at the root.
\<close>

definition file_entry :: "string \<Rightarrow> string \<Rightarrow> string option \<Rightarrow> GitHubContent" where
  "file_entry n p u =
     \<lparr>c_name = n, c_path = p, c_type = ''file'', c_download_url = u, c_size = 7\<rparr>"

definition dir_entry :: "string \<Rightarrow> GitHubContent" where
  "dir_entry n = \<lparr>c_name = n, c_path = n, c_type = ''dir'', c_download_url = None, c_size = 0\<rparr>"

definition example_root :: "GitHubContent list" where
  "example_root =
     [dir_entry ''Rock_Hits'', dir_entry ''broken'', dir_entry ''Jazz'',
      dir_entry ''empty_folder'', dir_entry ''no_links'',
      file_entry ''README.md'' ''README.md'' (Some ''raw/README.md'')]"

definition rock_hits_listing :: "GitHubContent list" where
  "rock_hits_listing =
     [file_entry ''song_one.mp3'' ''Rock_Hits/song_one.mp3'' (Some ''raw/1''),
      file_entry ''Song_Two.FLAC'' ''Rock_Hits/Song_Two.FLAC'' (Some ''raw/2''),
      file_entry ''notes.txt'' ''Rock_Hits/notes.txt'' (Some ''raw/3'')]"

definition jazz_listing :: "GitHubContent list" where
  "jazz_listing = [file_entry ''blue-in-green.ogg'' ''Jazz/blue-in-green.ogg'' (Some ''raw/4'')]"

definition unlinked_file :: GitHubContent where
  "unlinked_file = file_entry ''track.mp3'' ''no_links/track.mp3'' None"

definition example_network :: network where
  "example_network url =
     (if url = ''https://api.github.com/repos/al/m/contents/'' then JsonArray example_root
      else if url = ''https://api.github.com/repos/al/m/contents/Rock_Hits''
      then JsonArray rock_hits_listing
      else if url = ''https://api.github.com/repos/al/m/contents/Jazz''
      then JsonArray jazz_listing
      else if url = ''https://api.github.com/repos/al/m/contents/empty_folder''
      then JsonArray []
      else if url = ''https://api.github.com/repos/al/m/contents/no_links''
      then JsonArray [unlinked_file]
      else NotOk 500)"

definition example_browser :: browser where
  "example_browser =
     \<lparr>location_origin = ''https://music.example'', new_Date = 1000,
      Date_now = (\<lambda>k. 1000 + k), fetch = example_network\<rparr>"

definition example_catalog :: "ScannedPlaylist list" where
  "example_catalog =
     [\<lparr>p_name = ''Rock Hits'', p_path = ''Rock_Hits'',
       p_songs = [\<lparr>s_name = ''Song One'', s_path = ''Rock_Hits/song_one.mp3'',
                   s_downloadUrl = ''raw/1'', s_size = 7\<rparr>,
                  \<lparr>s_name = ''Song Two'', s_path = ''Rock_Hits/Song_Two.FLAC'',
                   s_downloadUrl = ''raw/2'', s_size = 7\<rparr>]\<rparr>,
      \<lparr>p_name = ''Jazz'', p_path = ''Jazz'',
       p_songs = [\<lparr>s_name = ''Blue In Green'', s_path = ''Jazz/blue-in-green.ogg'',
                   s_downloadUrl = ''raw/4'', s_size = 7\<rparr>]\<rparr>]"

text \<open>
  The repository \<open>a/m\<close> with one directory and one song, the same repository after a
  second directory was added, and a repository without content; the stores that the
  operations of the examples leave.
\<close>

definition small_network :: network where
  "small_network url =
     (if url = ''https://api.github.com/repos/a/m/contents/'' then JsonArray [dir_entry ''R'']
      else if url = ''https://api.github.com/repos/a/m/contents/R''
      then JsonArray [file_entry ''x.mp3'' ''R/x.mp3'' (Some ''raw/x'')]
      else NotOk 404)"

definition small_browser :: "nat \<Rightarrow> browser" where
  "small_browser now =
     \<lparr>location_origin = ''o'', new_Date = now, Date_now = (\<lambda>k. now + k), fetch = small_network\<rparr>"

definition empty_store :: store where
  "empty_store = \<lparr>streaming_sources = [], playlists = [], songs = [], next_uuid = 0, faults = []\<rparr>"

definition store_after_first :: store where
  "store_after_first =
     \<lparr>streaming_sources =
        [\<lparr>src_id = 0, src_name = ''n'', drive_link = ''https://github.com/a/m'',
          created_by = Some ''u1'', last_synced = 5\<rparr>],
      playlists =
        [\<lparr>pl_id = 1, user_id = ''u1'', source_id = 0, pl_name = ''R'', folder_path = ''R''\<rparr>],
      songs =
        [\<lparr>song_id = 2, playlist_id = 1, title = ''X'', duration = 180, file_path = ''raw/x'',
          unique_link = ''o/play/YS9tL1IveC5tcDM=_u1_5''\<rparr>],
      next_uuid = 3, faults = []\<rparr>"

definition github_link :: string where
  "github_link = ''https://github.com/a/m''"

definition empty_repo_browser :: browser where
  "empty_repo_browser =
     \<lparr>location_origin = ''o'', new_Date = 6, Date_now = (\<lambda>k. 6 + k),
      fetch = (\<lambda>url. JsonArray [])\<rparr>"



definition store_after_bulk :: store where
  "store_after_bulk =
     \<lparr>streaming_sources =
        [\<lparr>src_id = 0, src_name = ''n'', drive_link = ''https://github.com/a/m'',
          created_by = Some ''u1'', last_synced = 5\<rparr>],
      playlists =
        [\<lparr>pl_id = 1, user_id = ''u1'', source_id = 0, pl_name = ''R'', folder_path = ''R''\<rparr>,
         \<lparr>pl_id = 3, user_id = ''u1'', source_id = 0, pl_name = ''R'', folder_path = ''R''\<rparr>],
      songs =
        [\<lparr>song_id = 2, playlist_id = 1, title = ''X'', duration = 180, file_path = ''raw/x'',
          unique_link = ''o/play/YS9tL1IveC5tcDM=_u1_5''\<rparr>,
         \<lparr>song_id = 4, playlist_id = 3, title = ''X'', duration = 180, file_path = ''raw/x'',
          unique_link = ''o/play/YS9tL1IveC5tcDM=''\<rparr>],
      next_uuid = 5, faults = []\<rparr>"

definition store_with_source :: store where
  "store_with_source =
     \<lparr>streaming_sources =
        [\<lparr>src_id = 0, src_name = ''n'', drive_link = ''https://github.com/a/m'',
          created_by = Some ''u1'', last_synced = 6\<rparr>],
      playlists = [], songs = [], next_uuid = 1, faults = []\<rparr>"

definition scanned_x :: ScannedSong where
  "scanned_x = \<lparr>s_name = ''X'', s_path = ''R/x.mp3'', s_downloadUrl = ''raw/x'', s_size = 7\<rparr>"

definition store_shared :: store where
  "store_shared =
     \<lparr>streaming_sources =
        [\<lparr>src_id = 0, src_name = ''a/m'', drive_link = ''https://github.com/a/m'',
          created_by = Some ''u1'', last_synced = 5\<rparr>],
      playlists =
        [\<lparr>pl_id = 1, user_id = ''u1'', source_id = 0, pl_name = ''R'', folder_path = ''R''\<rparr>,
         \<lparr>pl_id = 3, user_id = ''u1'', source_id = 0, pl_name = ''R'', folder_path = ''R''\<rparr>],
      songs =
        [\<lparr>song_id = 2, playlist_id = 1, title = ''X'', duration = 180, file_path = ''raw/x'',
          unique_link = ''o/play/YS9tL1IveC5tcDM=''\<rparr>],
      next_uuid = 4, faults = []\<rparr>"

definition grown_network :: network where
  "grown_network url =
     (if url = ''https://api.github.com/repos/a/m/contents/''
      then JsonArray [dir_entry ''R'', dir_entry ''S'']
      else if url = ''https://api.github.com/repos/a/m/contents/R''
      then JsonArray [file_entry ''x.mp3'' ''R/x.mp3'' (Some ''raw/x'')]
      else if url = ''https://api.github.com/repos/a/m/contents/S''
      then JsonArray [file_entry ''y.mp3'' ''S/y.mp3'' (Some ''raw/y'')]
      else NotOk 404)"

definition grown_browser :: "nat \<Rightarrow> browser" where
  "grown_browser now =
     \<lparr>location_origin = ''o'', new_Date = now, Date_now = (\<lambda>k. now + k), fetch = grown_network\<rparr>"

definition store_after_refresh :: store where
  "store_after_refresh =
     \<lparr>streaming_sources =
        [\<lparr>src_id = 0, src_name = ''n'', drive_link = ''https://github.com/a/m'',
          created_by = Some ''u1'', last_synced = 10\<rparr>],
      playlists =
        [\<lparr>pl_id = 1, user_id = ''u1'', source_id = 0, pl_name = ''R'', folder_path = ''R''\<rparr>,
         \<lparr>pl_id = 3, user_id = ''u1'', source_id = 0, pl_name = ''S'', folder_path = ''S''\<rparr>],
      songs =
        [\<lparr>song_id = 2, playlist_id = 1, title = ''X'', duration = 180, file_path = ''raw/x'',
          unique_link = ''o/play/YS9tL1IveC5tcDM=_u1_5''\<rparr>,
         \<lparr>song_id = 4, playlist_id = 3, title = ''Y'', duration = 180, file_path = ''raw/y'',
          unique_link = ''o/play/YS9tL1MveS5tcDM=''\<rparr>],
      next_uuid = 5, faults = []\<rparr>"

section \<open>Properties of the unique link\<close>

lemmas alphabet_defs =
  upper_letters_def lower_letters_def digit_chars_def base64_alphabet_def

text \<open>
  C9. \<open>generateUniqueLink\<close> is a function of \<open>owner\<close>, \<open>repo\<close>, \<open>filePath\<close> and the
  application's origin only: it is the origin, \<open>/play/\<close> and the base64 encoding of
  \<open>owner/repo/filePath\<close>, and two calls in browser states that agree on the origin give
  the same string, whatever the clock and the network (file contents, sizes) are.
\<close>

theorem generateUniqueLink_deterministic:
  "generateUniqueLink b owner repo filePath =
     location_origin b @ ''/play/'' @ btoa (owner @ ''/'' @ repo @ ''/'' @ filePath)
   \<and> (location_origin b = location_origin b' \<longrightarrow>
        generateUniqueLink b owner repo filePath = generateUniqueLink b' owner repo filePath)"
  by (simp add: generateUniqueLink_def)

theorem generateUniqueLink_deterministic_witness:
  "location_origin browser_a = location_origin browser_b
   \<and> new_Date browser_a \<noteq> new_Date browser_b
   \<and> Date_now browser_a 0 \<noteq> Date_now browser_b 0
   \<and> generateUniqueLink browser_a ''al'' ''m'' ''R/a.mp3'' =
       generateUniqueLink browser_b ''al'' ''m'' ''R/a.mp3''
   \<and> generateUniqueLink browser_a ''al'' ''m'' ''R/a.mp3'' =
       ''https://music.example/play/YWwvbS9SL2EubXAz''"
proof -
  have same: "location_origin browser_a = location_origin browser_b"
    by (simp add: browser_a_def browser_b_def)
  have eq: "generateUniqueLink browser_a ''al'' ''m'' ''R/a.mp3'' =
            generateUniqueLink browser_b ''al'' ''m'' ''R/a.mp3''"
    using generateUniqueLink_deterministic [of browser_a "''al''" "''m''" "''R/a.mp3''" browser_b]
      same by blast
  have val: "generateUniqueLink browser_a ''al'' ''m'' ''R/a.mp3'' =
             ''https://music.example/play/YWwvbS9SL2EubXAz''"
    by (simp add: generateUniqueLink_def browser_a_def btoa_def b64_def alphabet_defs)
  show ?thesis
    using same eq val by (simp add: browser_a_def browser_b_def)
qed

section \<open>Properties of the scanner\<close>

lemma addSongs_concat: "addSongs files acc = acc @ concat (map file_songs files)"
proof (induction files arbitrary: acc)
  case Nil
  show ?case by simp
next
  case (Cons f rest)
  show ?case
    by (simp add: Cons.IH file_songs_def split: option.splits)
qed

lemma addSongs_listing: "addSongs (filter isAudioFile dirContents) [] = listing_songs dirContents"
  by (simp add: addSongs_concat listing_songs_def)

lemma scanDirectories_concat:
  "scanDirectories b owner repo dirs acc =
     acc @ concat (map (directory_playlists b owner repo) dirs)"
proof (induction dirs arbitrary: acc)
  case Nil
  show ?case by simp
next
  case (Cons dir rest)
  show ?case
    by (simp add: Cons.IH directory_playlists_def addSongs_listing split: sum.splits)
qed

lemma file_songs_truthy: "file_songs file \<noteq> [] \<longleftrightarrow> truthy (c_download_url file)"
  by (simp add: file_songs_def truthy_def split: option.splits)

lemma file_songs_url: "s \<in> set (file_songs file) \<Longrightarrow> s_downloadUrl s \<noteq> []"
  by (auto simp: file_songs_def split: option.splits if_splits)

lemma listing_songs_nonempty:
  "listing_songs dirContents \<noteq> [] \<longleftrightarrow>
     (\<exists>f \<in> set dirContents. isAudioFile f \<and> truthy (c_download_url f))"
  by (auto simp: listing_songs_def file_songs_truthy)

lemma listing_songs_url: "s \<in> set (listing_songs dirContents) \<Longrightarrow> s_downloadUrl s \<noteq> []"
  by (auto simp: listing_songs_def dest: file_songs_url)

lemma scan_root_ok:
  "fetchRepositoryContents b owner repo [] = Inr rootContents \<Longrightarrow>
   scanRepositoryStructure b owner repo =
     Inr (concat (map (directory_playlists b owner repo)
            (filter (\<lambda>item. c_type item = ''dir'') rootContents)))"
  by (simp add: scanRepositoryStructure_def scanDirectories_concat)

lemma directory_playlists_path:
  "p \<in> set (directory_playlists b owner repo dir) \<Longrightarrow> p_path p = c_path dir"
  by (auto simp: directory_playlists_def split: sum.splits if_splits)


lemma strip_extension_no_dot: "CHR ''.'' \<notin> set s \<Longrightarrow> strip_extension s = s"
  by (induction s) auto



lemma toLowerChar_slash [simp]: "toLowerChar (CHR ''/'') = CHR ''/''"
  by (simp add: toLowerChar_def alphabet_defs)

lemma toLowerChar_dot_fix [simp]: "toLowerChar (CHR ''.'') = CHR ''.''"
  by (simp add: toLowerChar_def alphabet_defs)



lemma length_capitalize_from [simp]: "length (capitalize_from prev s) = length s"
  by (induction s arbitrary: prev) auto





lemmas word_defs = is_word_char_def toUpperChar_def toLowerChar_def alphabet_defs

lemma space_not_word [simp]: "\<not> is_word_char (CHR '' '')"
  by (simp add: word_defs)





lemma length_capitalize_words [simp]: "length (capitalize_words s) = length s"
  by (simp add: capitalize_words_def)

lemma length_replace_separators [simp]: "length (replace_separators s) = length s"
  by (simp add: replace_separators_def)


lemma concat_map_filter_skip:
  "(\<And>x. x \<in> set xs \<Longrightarrow> \<not> P x \<Longrightarrow> f x = []) \<Longrightarrow>
   concat (map f (filter P xs)) = concat (map f xs)"
  by (induction xs) auto

lemma directory_playlists_failed:
  "isl (fetchRepositoryContents b owner repo (c_path dir)) \<Longrightarrow>
   directory_playlists b owner repo dir = []"
  by (auto simp: directory_playlists_def split: sum.splits)

lemma directory_playlists_mem:
  assumes "p \<in> set (directory_playlists b owner repo d)"
  shows "\<exists>dirContents. fetchRepositoryContents b owner repo (c_path d) = Inr dirContents \<and>
           listing_songs dirContents \<noteq> [] \<and>
           p = \<lparr>p_name = formatPlaylistName (c_name d), p_path = c_path d,
                 p_songs = listing_songs dirContents\<rparr>"
  using assms
  by (cases "fetchRepositoryContents b owner repo (c_path d)")
     (auto simp: directory_playlists_def split: if_splits)

subsection \<open>The example repository\<close>

lemmas title_defs =
  extractSongTitle_def formatPlaylistName_def replace_separators_def capitalize_words_def
  word_defs

lemmas audio_defs =
  isAudioFile_def AUDIO_EXTENSIONS_def endsWith_def toLowerCase_def toLowerChar_def
  alphabet_defs suffix_def

lemma example_root_fetch:
  "fetchRepositoryContents example_browser ''al'' ''m'' [] = Inr example_root"
  by (simp add: fetchRepositoryContents_def contents_url_def example_browser_def example_network_def)

lemma example_fetch_rock:
  "fetchRepositoryContents example_browser ''al'' ''m'' ''Rock_Hits'' = Inr rock_hits_listing"
  by (simp add: fetchRepositoryContents_def contents_url_def example_browser_def example_network_def)

lemma example_fetch_broken:
  "fetchRepositoryContents example_browser ''al'' ''m'' ''broken'' = Inl (GitHubApiError 500)"
  by (simp add: fetchRepositoryContents_def contents_url_def example_browser_def example_network_def)

lemma example_fetch_jazz:
  "fetchRepositoryContents example_browser ''al'' ''m'' ''Jazz'' = Inr jazz_listing"
  by (simp add: fetchRepositoryContents_def contents_url_def example_browser_def example_network_def)

lemma example_fetch_empty:
  "fetchRepositoryContents example_browser ''al'' ''m'' ''empty_folder'' = Inr []"
  by (simp add: fetchRepositoryContents_def contents_url_def example_browser_def example_network_def)

lemma example_fetch_no_links:
  "fetchRepositoryContents example_browser ''al'' ''m'' ''no_links'' = Inr [unlinked_file]"
  by (simp add: fetchRepositoryContents_def contents_url_def example_browser_def example_network_def)

lemmas example_fetches =
  example_root_fetch example_fetch_rock example_fetch_broken example_fetch_jazz
  example_fetch_empty example_fetch_no_links

lemma rock_hits_songs:
  "listing_songs rock_hits_listing =
     [\<lparr>s_name = ''Song One'', s_path = ''Rock_Hits/song_one.mp3'',
       s_downloadUrl = ''raw/1'', s_size = 7\<rparr>,
      \<lparr>s_name = ''Song Two'', s_path = ''Rock_Hits/Song_Two.FLAC'',
       s_downloadUrl = ''raw/2'', s_size = 7\<rparr>]"
  by (simp add: listing_songs_def file_songs_def rock_hits_listing_def file_entry_def
      audio_defs title_defs)

lemma jazz_songs:
  "listing_songs jazz_listing =
     [\<lparr>s_name = ''Blue In Green'', s_path = ''Jazz/blue-in-green.ogg'',
       s_downloadUrl = ''raw/4'', s_size = 7\<rparr>]"
  by (simp add: listing_songs_def file_songs_def jazz_listing_def file_entry_def
      audio_defs title_defs)

lemma no_links_songs: "listing_songs [unlinked_file] = []"
  by (simp add: listing_songs_def file_songs_def unlinked_file_def file_entry_def)

lemma listing_songs_Nil: "listing_songs [] = []"
  by (simp add: listing_songs_def)

lemma example_directories:
  "directory_playlists example_browser ''al'' ''m'' (dir_entry ''Rock_Hits'') = [hd example_catalog]"
  "directory_playlists example_browser ''al'' ''m'' (dir_entry ''broken'') = []"
  "directory_playlists example_browser ''al'' ''m'' (dir_entry ''Jazz'') = tl example_catalog"
  "directory_playlists example_browser ''al'' ''m'' (dir_entry ''empty_folder'') = []"
  "directory_playlists example_browser ''al'' ''m'' (dir_entry ''no_links'') = []"
  by (simp_all add: directory_playlists_def dir_entry_def example_fetches rock_hits_songs
      jazz_songs no_links_songs listing_songs_Nil example_catalog_def title_defs)

lemma example_scan:
  "scanRepositoryStructure example_browser ''al'' ''m'' = Inr example_catalog"
proof -
  have "filter (\<lambda>item. c_type item = ''dir'') example_root =
          [dir_entry ''Rock_Hits'', dir_entry ''broken'', dir_entry ''Jazz'',
           dir_entry ''empty_folder'', dir_entry ''no_links'']"
    by (simp add: example_root_def dir_entry_def file_entry_def)
  then show ?thesis
    by (simp add: scan_root_ok [OF example_root_fetch] example_directories example_catalog_def)
qed

subsection \<open>The claims about the scanner\<close>

text \<open>
  C6, as amended. When the root listing is fetched, the scan returns a catalog, and a
  directory of the root listing has an entry in it (an entry with the directory's path)
  if and only if the directory's listing is fetched and holds an entry of type \<open>file\<close>
  whose lower-cased name ends with one of the audio extensions and whose download url is
  neither null nor empty. A directory without such a file gives no entry and no error.
\<close>

theorem playlist_candidate_iff:
  assumes root: "fetchRepositoryContents b owner repo [] = Inr rootContents"
    and dir: "dir \<in> set rootContents" "c_type dir = ''dir''"
  shows "\<exists>found. scanRepositoryStructure b owner repo = Inr found \<and>
           ((\<exists>p \<in> set found. p_path p = c_path dir) \<longleftrightarrow>
            (\<exists>dirContents. fetchRepositoryContents b owner repo (c_path dir) = Inr dirContents \<and>
               (\<exists>f \<in> set dirContents.
                  c_type f = ''file'' \<and>
                  (\<exists>ext \<in> set AUDIO_EXTENSIONS. endsWith (toLowerCase (c_name f)) ext) \<and>
                  truthy (c_download_url f))))"
proof -
  let ?dirs = "filter (\<lambda>item. c_type item = ''dir'') rootContents"
  let ?found = "concat (map (directory_playlists b owner repo) ?dirs)"
  let ?rhs = "\<exists>dirContents. fetchRepositoryContents b owner repo (c_path dir) = Inr dirContents \<and>
               (\<exists>f \<in> set dirContents. isAudioFile f \<and> truthy (c_download_url f))"
  have scan: "scanRepositoryStructure b owner repo = Inr ?found"
    using root by (rule scan_root_ok)
  have "(\<exists>p \<in> set ?found. p_path p = c_path dir) \<longleftrightarrow> ?rhs"
  proof
    assume "\<exists>p \<in> set ?found. p_path p = c_path dir"
    then obtain p d where d: "d \<in> set ?dirs" and p: "p \<in> set (directory_playlists b owner repo d)"
      and path: "p_path p = c_path dir"
      by auto
    from p have same: "c_path d = c_path dir"
      using path directory_playlists_path by fastforce
    from p obtain dirContents where
      "fetchRepositoryContents b owner repo (c_path d) = Inr dirContents"
      "listing_songs dirContents \<noteq> []"
      using directory_playlists_mem by blast
    then show ?rhs
      using same by (auto simp: listing_songs_nonempty)
  next
    assume ?rhs
    then obtain dirContents where
      ok: "fetchRepositoryContents b owner repo (c_path dir) = Inr dirContents"
      and songs: "listing_songs dirContents \<noteq> []"
      by (auto simp: listing_songs_nonempty)
    have "dir \<in> set ?dirs" using dir by simp
    moreover have "\<exists>p \<in> set (directory_playlists b owner repo dir). p_path p = c_path dir"
      using ok songs by (simp add: directory_playlists_def)
    ultimately show "\<exists>p \<in> set ?found. p_path p = c_path dir"
      by auto
  qed
  then show ?thesis
    using scan by (simp add: isAudioFile_def list_ex_iff)
qed

theorem playlist_candidate_iff_witness:
  "dir_entry ''Rock_Hits'' \<in> set example_root
   \<and> (\<exists>found. scanRepositoryStructure example_browser ''al'' ''m'' = Inr found \<and>
         (\<exists>p \<in> set found. p_path p = ''Rock_Hits''))
   \<and> dir_entry ''empty_folder'' \<in> set example_root
   \<and> (\<exists>found. scanRepositoryStructure example_browser ''al'' ''m'' = Inr found \<and>
         \<not> (\<exists>p \<in> set found. p_path p = ''empty_folder''))"
proof -
  have rock: "dir_entry ''Rock_Hits'' \<in> set example_root"
    and empty: "dir_entry ''empty_folder'' \<in> set example_root"
    by (simp_all add: example_root_def)
  have dir: "c_type (dir_entry n) = ''dir''" "c_path (dir_entry n) = n" for n
    by (simp_all add: dir_entry_def)
  have one: "\<exists>f \<in> set rock_hits_listing. c_type f = ''file'' \<and>
               (\<exists>ext \<in> set AUDIO_EXTENSIONS. endsWith (toLowerCase (c_name f)) ext) \<and>
               truthy (c_download_url f)"
    by (simp add: rock_hits_listing_def file_entry_def truthy_def audio_defs)
  have a: "\<exists>found. scanRepositoryStructure example_browser ''al'' ''m'' = Inr found \<and>
         (\<exists>p \<in> set found. p_path p = ''Rock_Hits'')"
    using playlist_candidate_iff [OF example_root_fetch rock dir(1)] one
    by (simp add: dir example_fetches)
  have b: "\<exists>found. scanRepositoryStructure example_browser ''al'' ''m'' = Inr found \<and>
         \<not> (\<exists>p \<in> set found. p_path p = ''empty_folder'')"
    using playlist_candidate_iff [OF example_root_fetch empty dir(1)]
    by (simp add: dir example_fetches)
  show ?thesis
    using rock empty a b by blast
qed

text \<open>The claim without the download url: the listing of \<open>no_links\<close> holds a file
  whose name ends with \<open>.mp3\<close>, and the catalog has no entry for the directory.\<close>

theorem playlist_candidate_counterexample:
  "dir_entry ''no_links'' \<in> set example_root
   \<and> fetchRepositoryContents example_browser ''al'' ''m'' ''no_links'' = Inr [unlinked_file]
   \<and> c_type unlinked_file = ''file''
   \<and> endsWith (toLowerCase (c_name unlinked_file)) ''.mp3''
   \<and> scanRepositoryStructure example_browser ''al'' ''m'' = Inr example_catalog
   \<and> ''no_links'' \<notin> set (map p_path example_catalog)"
  by (simp add: example_fetches example_scan)
     (simp add: example_root_def example_catalog_def unlinked_file_def file_entry_def
        endsWith_def toLowerCase_def toLowerChar_def alphabet_defs suffix_def)

text \<open>
  C7. When the root listing is fetched, the scan returns a catalog (it does not fail), and
  the catalog is the one of the directories whose own listing was fetched: it is the
  concatenation, in the order of the root listing, of what each such directory
  contributes. A directory whose listing fails contributes nothing
  (\<open>directory_playlists_failed\<close>) and does not stop the scan of the others.
\<close>

theorem partial_failure_tolerance:
  assumes "fetchRepositoryContents b owner repo [] = Inr rootContents"
  shows "scanRepositoryStructure b owner repo =
           Inr (concat (map (directory_playlists b owner repo)
                  (filter (\<lambda>item. c_type item = ''dir'' \<and>
                                   \<not> isl (fetchRepositoryContents b owner repo (c_path item)))
                     rootContents)))"
proof -
  let ?dirs = "filter (\<lambda>item. c_type item = ''dir'') rootContents"
  let ?ok = "\<lambda>item. \<not> isl (fetchRepositoryContents b owner repo (c_path item))"
  have "concat (map (directory_playlists b owner repo) (filter ?ok ?dirs)) =
        concat (map (directory_playlists b owner repo) ?dirs)"
    by (rule concat_map_filter_skip) (simp add: directory_playlists_failed)
  then show ?thesis
    using assms by (simp add: scan_root_ok)
qed

theorem partial_failure_tolerance_witness:
  "fetchRepositoryContents example_browser ''al'' ''m'' [] = Inr example_root
   \<and> fetchRepositoryContents example_browser ''al'' ''m'' ''broken'' = Inl (GitHubApiError 500)
   \<and> filter (\<lambda>item. c_type item = ''dir'' \<and>
          \<not> isl (fetchRepositoryContents example_browser ''al'' ''m'' (c_path item))) example_root =
       [dir_entry ''Rock_Hits'', dir_entry ''Jazz'', dir_entry ''empty_folder'',
        dir_entry ''no_links'']
   \<and> scanRepositoryStructure example_browser ''al'' ''m'' = Inr example_catalog"
proof -
  have ok: "filter (\<lambda>item. c_type item = ''dir'' \<and>
          \<not> isl (fetchRepositoryContents example_browser ''al'' ''m'' (c_path item))) example_root =
       [dir_entry ''Rock_Hits'', dir_entry ''Jazz'', dir_entry ''empty_folder'',
        dir_entry ''no_links'']"
    by (simp add: example_root_def dir_entry_def file_entry_def example_fetches)
  have "scanRepositoryStructure example_browser ''al'' ''m'' = Inr example_catalog"
    using partial_failure_tolerance [OF example_root_fetch]
    by (simp add: ok example_directories example_catalog_def)
  then show ?thesis
    using ok by (simp add: example_fetches)
qed




text \<open>
  C10. A listed file whose download url is null or empty adds no song: the songs of a
  listing are those of the listing without that file. A directory all of whose audio
  files lack a download url adds no playlist. Every song of every playlist the scan
  returns has a non-empty download url.
\<close>

theorem download_url_guard:
  "(\<not> truthy (c_download_url f) \<longrightarrow>
      addSongs (filter isAudioFile (pre @ f # post)) [] =
      addSongs (filter isAudioFile (pre @ post)) [])
   \<and> (fetchRepositoryContents b owner repo (c_path dir) = Inr dirContents \<and>
        list_all (\<lambda>f. isAudioFile f \<longrightarrow> \<not> truthy (c_download_url f)) dirContents \<longrightarrow>
        scanDirectories b owner repo (dir # dirs) acc = scanDirectories b owner repo dirs acc)
   \<and> (scanRepositoryStructure b owner repo = Inr found \<longrightarrow>
        (\<forall>p \<in> set found. \<forall>s \<in> set (p_songs p). s_downloadUrl s \<noteq> []))"
proof (intro conjI impI)
  assume "\<not> truthy (c_download_url f)"
  then have "file_songs f = []"
    by (simp add: file_songs_truthy [symmetric])
  then show "addSongs (filter isAudioFile (pre @ f # post)) [] =
             addSongs (filter isAudioFile (pre @ post)) []"
    by (simp add: addSongs_concat)
next
  assume a: "fetchRepositoryContents b owner repo (c_path dir) = Inr dirContents \<and>
        list_all (\<lambda>f. isAudioFile f \<longrightarrow> \<not> truthy (c_download_url f)) dirContents"
  then have "listing_songs dirContents = []"
    using listing_songs_nonempty [of dirContents] by (auto simp: list_all_iff)
  then have "directory_playlists b owner repo dir = []"
    using a by (simp add: directory_playlists_def)
  then show "scanDirectories b owner repo (dir # dirs) acc = scanDirectories b owner repo dirs acc"
    by (simp add: scanDirectories_concat)
next
  assume scan: "scanRepositoryStructure b owner repo = Inr found"
  show "\<forall>p \<in> set found. \<forall>s \<in> set (p_songs p). s_downloadUrl s \<noteq> []"
  proof (intro ballI)
    fix p s
    assume p: "p \<in> set found" and s: "s \<in> set (p_songs p)"
    from scan obtain dirs where "found = concat (map (directory_playlists b owner repo) dirs)"
      by (auto simp: scanRepositoryStructure_def scanDirectories_concat split: sum.splits)
    with p obtain d where "p \<in> set (directory_playlists b owner repo d)"
      by auto
    then obtain dirContents where "p_songs p = listing_songs dirContents"
      using directory_playlists_mem by fastforce
    with s show "s_downloadUrl s \<noteq> []"
      by (simp add: listing_songs_url)
  qed
qed

theorem download_url_guard_witness:
  "\<not> truthy (c_download_url unlinked_file)
   \<and> addSongs (filter isAudioFile (rock_hits_listing @ unlinked_file # [])) [] =
       addSongs (filter isAudioFile (rock_hits_listing @ [])) []
   \<and> fetchRepositoryContents example_browser ''al'' ''m'' (c_path (dir_entry ''no_links'')) =
       Inr [unlinked_file]
   \<and> scanDirectories example_browser ''al'' ''m'' [dir_entry ''no_links''] [] = []
   \<and> scanRepositoryStructure example_browser ''al'' ''m'' = Inr example_catalog
   \<and> list_all (\<lambda>p. list_all (\<lambda>s. s_downloadUrl s \<noteq> []) (p_songs p)) example_catalog"
proof -
  have falsy: "\<not> truthy (c_download_url unlinked_file)"
    by (simp add: unlinked_file_def file_entry_def truthy_def)
  have listing: "fetchRepositoryContents example_browser ''al'' ''m'' (c_path (dir_entry ''no_links'')) =
       Inr [unlinked_file]"
    by (simp add: dir_entry_def example_fetches)
  note guard = download_url_guard [of unlinked_file rock_hits_listing "[]" example_browser
      "''al''" "''m''" "dir_entry ''no_links''" "[unlinked_file]" "[]" "[]" example_catalog]
  have a: "addSongs (filter isAudioFile (rock_hits_listing @ unlinked_file # [])) [] =
       addSongs (filter isAudioFile (rock_hits_listing @ [])) []"
    using guard falsy by blast
  have b: "scanDirectories example_browser ''al'' ''m'' [dir_entry ''no_links''] [] = []"
    using guard falsy listing by simp
  have c: "list_all (\<lambda>p. list_all (\<lambda>s. s_downloadUrl s \<noteq> []) (p_songs p)) example_catalog"
    using guard example_scan by (simp add: list_all_iff)
  show ?thesis
    using falsy a listing b example_scan c by blast
qed

section \<open>Properties of the store operations\<close>

subsection \<open>Writes\<close>

lemma next_fault_frame:
  assumes "next_fault st = (bad, st1)"
  shows "streaming_sources st1 = streaming_sources st \<and> playlists st1 = playlists st \<and>
         songs st1 = songs st \<and> next_uuid st1 = next_uuid st"
  using assms by (auto simp: next_fault_def split: list.splits)

lemma insert_song_cases:
  assumes "insert_song pid ttl dur fpath link st = (r, st1)"
  shows "streaming_sources st1 = streaming_sources st \<and> playlists st1 = playlists st \<and>
         (songs st1 = songs st \<and> isl r \<or>
          link \<notin> set (map unique_link (songs st)) \<and>
          (\<exists>row. r = Inr row \<and> songs st1 = songs st @ [row] \<and> unique_link row = link \<and>
             playlist_id row = pid))"
  using assms
  by (auto simp: insert_song_def Let_def split: prod.splits if_splits dest!: next_fault_frame)

lemma insert_playlist_cases:
  assumes "insert_playlist user sid name path st = (r, st1)"
  shows "streaming_sources st1 = streaming_sources st \<and> songs st1 = songs st \<and>
         (playlists st1 = playlists st \<and> isl r \<or>
          (\<exists>row. r = Inr row \<and> playlists st1 = playlists st @ [row] \<and> user_id row = user \<and>
             source_id row = sid \<and> folder_path row = path))"
  using assms
  by (auto simp: insert_playlist_def Let_def split: prod.splits if_splits dest!: next_fault_frame)

lemma insert_source_cases:
  assumes "insert_source name link user now st = (r, st1)"
  shows "playlists st1 = playlists st \<and> songs st1 = songs st \<and>
         (streaming_sources st1 = streaming_sources st \<and> isl r \<or>
          (\<exists>row. r = Inr row \<and> streaming_sources st1 = streaming_sources st @ [row] \<and>
             drive_link row = link))"
  using assms
  by (auto simp: insert_source_def Let_def split: prod.splits if_splits dest!: next_fault_frame)








subsection \<open>The invariant along the three paths\<close>















subsection \<open>Repository URLs\<close>

lemma not_repo_char_slash [simp]: "\<not> is_repo_char (CHR ''/'')"
  by (simp add: is_repo_char_def is_word_char_def alphabet_defs)

lemma match_owner_repo_valid:
  assumes "takeWhile is_repo_char rest \<noteq> []"
    and "dropWhile is_repo_char rest = CHR ''/'' # c2 # cs"
    and "is_repo_char c2"
  shows "\<exists>owner repo. match_owner_repo rest = Some (owner, repo)"
proof -
  let ?o = "takeWhile is_repo_char rest"
  have rest: "rest = ?o @ CHR ''/'' # c2 # cs"
    using assms(2) takeWhile_dropWhile_id [of is_repo_char rest] by simp
  have all: "\<forall>c \<in> set ?o. c \<noteq> CHR ''/''"
    using not_repo_char_slash by (metis set_takeWhileD)
  have tw: "takeWhile (\<lambda>c. c \<noteq> CHR ''/'') rest = ?o"
    by (subst rest) (simp add: takeWhile_append2 all del: takeWhile_eq_all_conv)
  have dw: "dropWhile (\<lambda>c. c \<noteq> CHR ''/'') rest = CHR ''/'' # c2 # cs"
    by (subst rest) (simp add: dropWhile_append2 all)
  have c2: "c2 \<noteq> CHR ''/''"
    using assms(3) not_repo_char_slash by auto
  show ?thesis
    using assms(1) c2 by (simp add: match_owner_repo_def tw dw Let_def)
qed

lemma valid_url_parses:
  assumes "githubUrlPattern_test s"
  shows "\<exists>owner repo. parseGitHubUrl s = Some (owner, repo)"
proof -
  from assms obtain rest where s: "s = ''https://github.com/'' @ rest"
    by (auto simp: githubUrlPattern_test_def prefix_def)
  with assms obtain c2 cs where "takeWhile is_repo_char rest \<noteq> []"
    "dropWhile is_repo_char rest = CHR ''/'' # c2 # cs" "is_repo_char c2"
    by (auto simp: githubUrlPattern_test_def Let_def split: list.splits)
  from match_owner_repo_valid [OF this] obtain owner repo where
    "match_owner_repo rest = Some (owner, repo)" by blast
  then have "match_github s = Some (owner, repo)"
    by (simp add: s)
  then show ?thesis
    by (simp add: parseGitHubUrl_def)
qed

subsection \<open>What the single import writes\<close>

lemma length_song_links [simp]: "length (song_links b user owner repo k scanned) = length scanned"
  by (induction scanned arbitrary: k) simp_all

lemma AddStreamingLink_createSongs_added:
  "AddStreamingLink_createSongs b user owner repo pid scanned k n st = (n', st') \<Longrightarrow>
   streaming_sources st' = streaming_sources st \<and> playlists st' = playlists st \<and>
   (\<exists>added. songs st' = songs st @ added \<and>
      (\<forall>row \<in> set added. playlist_id row = pid \<and>
         unique_link row \<in> set (song_links b user owner repo k scanned)))"
proof (induction scanned arbitrary: k n st)
  case Nil
  then show ?case by simp
next
  case (Cons song rest)
  let ?link = "stored_link b user owner repo k song"
  obtain r st1 where ins: "insert_song pid (s_name song) 180 (s_downloadUrl song) ?link st = (r, st1)"
    by (cases "insert_song pid (s_name song) 180 (s_downloadUrl song) ?link st")
  obtain m where rec:
    "AddStreamingLink_createSongs b user owner repo pid rest (k + 1) m st1 = (n', st')"
    using Cons.prems ins by (auto simp: Let_def stored_link_def split: sum.splits)
  from Cons.IH [OF rec] obtain added where
    f: "streaming_sources st' = streaming_sources st1" "playlists st' = playlists st1"
    and a: "songs st' = songs st1 @ added"
    and rows: "\<forall>row \<in> set added. playlist_id row = pid \<and>
         unique_link row \<in> set (song_links b user owner repo (k + 1) rest)"
    by blast
  from insert_song_cases [OF ins] have
    f1: "streaming_sources st1 = streaming_sources st" "playlists st1 = playlists st"
    and s1: "songs st1 = songs st \<or>
       (\<exists>row. songs st1 = songs st @ [row] \<and> unique_link row = ?link \<and> playlist_id row = pid)"
    by blast+
  from s1 have "\<exists>added. songs st' = songs st @ added \<and>
      (\<forall>row \<in> set added. playlist_id row = pid \<and>
         unique_link row \<in> set (song_links b user owner repo k (song # rest)))"
  proof
    assume "songs st1 = songs st"
    then have "songs st' = songs st @ added"
      using a by simp
    moreover have "\<forall>row \<in> set added. playlist_id row = pid \<and>
         unique_link row \<in> set (song_links b user owner repo k (song # rest))"
      using rows by simp
    ultimately show ?thesis by blast
  next
    assume "\<exists>row. songs st1 = songs st @ [row] \<and> unique_link row = ?link \<and> playlist_id row = pid"
    then obtain row where row: "songs st1 = songs st @ [row]" "unique_link row = ?link"
      "playlist_id row = pid" by blast
    have "songs st' = songs st @ (row # added)"
      using a row by simp
    moreover have "\<forall>r \<in> set (row # added). playlist_id r = pid \<and>
         unique_link r \<in> set (song_links b user owner repo k (song # rest))"
      using rows row by simp
    ultimately show ?thesis by blast
  qed
  then show ?case using f f1 by simp
qed

lemma AddStreamingLink_createPlaylists_written:
  "AddStreamingLink_createPlaylists b user sid owner repo found k totals st = (totals', st') \<Longrightarrow>
   streaming_sources st' = streaming_sources st \<and> set (playlists st) \<subseteq> set (playlists st') \<and>
   (fst totals < fst totals' \<longrightarrow>
      (\<exists>p \<in> set (playlists st'). user_id p = user \<and> source_id p = sid))"
proof (induction found arbitrary: k totals st)
  case Nil
  then show ?case by simp
next
  case (Cons pl rest)
  obtain r st1 where ins: "insert_playlist user sid (p_name pl) (p_path pl) st = (r, st1)"
    by (cases "insert_playlist user sid (p_name pl) (p_path pl) st")
  from insert_playlist_cases [OF ins] have f1: "streaming_sources st1 = streaming_sources st"
    and p1: "playlists st1 = playlists st \<and> isl r \<or>
          (\<exists>row. r = Inr row \<and> playlists st1 = playlists st @ [row] \<and> user_id row = user \<and>
             source_id row = sid \<and> folder_path row = p_path pl)"
    by blast+
  show ?case
  proof (cases r)
    case (Inl e)
    with Cons.prems ins have
      "AddStreamingLink_createPlaylists b user sid owner repo rest k totals st1 = (totals', st')"
      by simp
    from Cons.IH [OF this] f1 p1 Inl show ?thesis by auto
  next
    case (Inr playlistData)
    obtain m st2 where songs:
      "(if length (p_songs pl) > 0
        then AddStreamingLink_createSongs b user owner repo (pl_id playlistData) (p_songs pl)
               k (snd totals) st1
        else (snd totals, st1)) = (m, st2)"
      by (cases "if length (p_songs pl) > 0
        then AddStreamingLink_createSongs b user owner repo (pl_id playlistData) (p_songs pl)
               k (snd totals) st1
        else (snd totals, st1)")
    then have f2: "streaming_sources st2 = streaming_sources st1 \<and> playlists st2 = playlists st1"
      by (auto split: if_splits dest: AddStreamingLink_createSongs_added)
    from Cons.prems ins Inr songs have
      "AddStreamingLink_createPlaylists b user sid owner repo rest (k + length (p_songs pl))
         (fst totals + 1, m) st2 = (totals', st')"
      by simp
    from Cons.IH [OF this] have
      ih: "streaming_sources st' = streaming_sources st2" "set (playlists st2) \<subseteq> set (playlists st')"
      by simp_all
    from p1 Inr obtain row where row: "playlists st1 = playlists st @ [row]" "user_id row = user"
      "source_id row = sid"
      by auto
    have "row \<in> set (playlists st')"
      using ih(2) f2 row(1) by auto
    then have "\<exists>p \<in> set (playlists st'). user_id p = user \<and> source_id p = sid"
      using row(2,3) by blast
    moreover have "set (playlists st) \<subseteq> set (playlists st')"
      using ih(2) f2 row(1) by auto
    ultimately show ?thesis
      using ih(1) f1 f2 by simp
  qed
qed


lemma AddStreamingLink_findOrCreateSource_cases:
  assumes "AddStreamingLink_findOrCreateSource b user name link st = (r, st1)"
  shows "playlists st1 = playlists st \<and> songs st1 = songs st \<and>
         (select_sources st link \<noteq> [] \<and> st1 = st \<and> r = Inr (hd (select_sources st link)) \<or>
          select_sources st link = [] \<and>
            (streaming_sources st1 = streaming_sources st \<and> isl r \<or>
             (\<exists>row. r = Inr row \<and> streaming_sources st1 = streaming_sources st @ [row] \<and>
                drive_link row = link)))"
proof (cases "select_sources st link")
  case Nil
  then have "insert_source (trim name) link user (new_Date b) st = (r, st1)"
    using assms by (simp add: AddStreamingLink_findOrCreateSource_def)
  from insert_source_cases [OF this] Nil show ?thesis by auto
next
  case (Cons s others)
  then show ?thesis
    using assms by (auto simp: AddStreamingLink_findOrCreateSource_def)
qed

lemma hd_select_sources:
  "select_sources st link \<noteq> [] \<Longrightarrow>
   hd (select_sources st link) \<in> set (streaming_sources st) \<and>
   drive_link (hd (select_sources st link)) = link"
  using hd_in_set [of "select_sources st link"] by (auto simp: select_sources_def)

lemma AddStreamingLink_findOrCreateSource_found:
  assumes "AddStreamingLink_findOrCreateSource b user name link st = (Inr sourceData, st1)"
  shows "sourceData \<in> set (streaming_sources st1) \<and> drive_link sourceData = link"
  using AddStreamingLink_findOrCreateSource_cases [OF assms] hd_select_sources [of st link]
  by auto


text \<open>What a call that reports success went through.\<close>

lemma AddStreamingLink_handleSubmit_Inr:
  assumes "AddStreamingLink_handleSubmit b user name githubLink st = (Inr totals, st')"
  shows "\<exists>owner repo sourceData st1 found.
           githubUrlPattern_test (trim githubLink) \<and>
           parseGitHubUrl (trim githubLink) = Some (owner, repo) \<and>
           AddStreamingLink_findOrCreateSource b user name (trim githubLink) st =
             (Inr sourceData, st1) \<and>
           AddStreamingLink_createPlaylists b user (src_id sourceData) owner repo found 0 (0, 0) st1 =
             (totals, st')"
  using assms
  by (auto simp: AddStreamingLink_handleSubmit_def
      split: option.splits prod.splits sum.splits if_splits)




subsection \<open>Sources are never removed\<close>













subsection \<open>The single import when the store refuses nothing\<close>








subsection \<open>The example stores\<close>

lemma github_link_valid: "githubUrlPattern_test (trim github_link)"
  by code_simp

lemma github_link_parse: "parseGitHubUrl (trim github_link) = Some (''a'', ''m'')"
  by code_simp

lemma first_import:
  "AddStreamingLink_handleSubmit (small_browser 5) ''u1'' ''n'' github_link empty_store =
     (Inr (1, 1), store_after_first)"
  by code_simp



subsection \<open>The claims about import and refresh\<close>




text \<open>
  C2, as amended. When the link is well formed, the user has no playlist of the
  repository yet, the source is found or created and the scan returns an empty catalog,
  the import fails with \<open>NoPlayableContent\<close>; it has written no playlist and no song.
  The source is resolved before the scan: when a source with the link existed the store is
  unchanged, and otherwise the new source row has been added and stays.
\<close>

theorem no_playable_content:
  assumes valid: "githubUrlPattern_test (trim githubLink)"
    and parse: "parseGitHubUrl (trim githubLink) = Some (owner, repo)"
    and fresh: "select_sources_of_user st (trim githubLink) user = []"
    and source: "AddStreamingLink_findOrCreateSource b user name (trim githubLink) st =
                   (Inr sourceData, st1)"
    and scan: "scanRepositoryStructure b owner repo = Inr []"
  shows "AddStreamingLink_handleSubmit b user name githubLink st = (Inl NoPlayableContent, st1)
     \<and> playlists st1 = playlists st \<and> songs st1 = songs st
     \<and> (if select_sources st (trim githubLink) = []
         then streaming_sources st1 = streaming_sources st @ [sourceData] \<and>
              drive_link sourceData = trim githubLink
         else st1 = st)"
proof -
  have "AddStreamingLink_handleSubmit b user name githubLink st = (Inl NoPlayableContent, st1)"
    using valid parse fresh source scan by (simp add: AddStreamingLink_handleSubmit_def)
  moreover have "playlists st1 = playlists st \<and> songs st1 = songs st
     \<and> (if select_sources st (trim githubLink) = []
         then streaming_sources st1 = streaming_sources st @ [sourceData] \<and>
              drive_link sourceData = trim githubLink
         else st1 = st)"
    using AddStreamingLink_findOrCreateSource_cases [OF source] by auto
  ultimately show ?thesis by simp
qed

theorem no_playable_content_witness:
  "githubUrlPattern_test (trim github_link)
   \<and> parseGitHubUrl (trim github_link) = Some (''a'', ''m'')
   \<and> select_sources_of_user store_with_source (trim github_link) ''u2'' = []
   \<and> scanRepositoryStructure empty_repo_browser ''a'' ''m'' = Inr []
   \<and> AddStreamingLink_handleSubmit empty_repo_browser ''u2'' ''n'' github_link store_with_source =
       (Inl NoPlayableContent, store_with_source)
   \<and> select_sources_of_user empty_store (trim github_link) ''u1'' = []
   \<and> AddStreamingLink_handleSubmit empty_repo_browser ''u1'' ''n'' github_link empty_store =
       (Inl NoPlayableContent, store_with_source)
   \<and> playlists store_with_source = playlists empty_store
   \<and> songs store_with_source = songs empty_store
   \<and> streaming_sources store_with_source =
       streaming_sources empty_store @ [hd (streaming_sources store_with_source)]"
proof -
  have fresh: "select_sources_of_user store_with_source (trim github_link) ''u2'' = []"
    by code_simp
  have source: "AddStreamingLink_findOrCreateSource empty_repo_browser ''u2'' ''n''
                  (trim github_link) store_with_source =
                (Inr (hd (streaming_sources store_with_source)), store_with_source)"
    by code_simp
  have scan: "scanRepositoryStructure empty_repo_browser ''a'' ''m'' = Inr []"
    by code_simp
  from no_playable_content [OF github_link_valid github_link_parse fresh source scan]
  have existing: "AddStreamingLink_handleSubmit empty_repo_browser ''u2'' ''n'' github_link
       store_with_source = (Inl NoPlayableContent, store_with_source)"
    by blast
  have fresh1: "select_sources_of_user empty_store (trim github_link) ''u1'' = []"
    by code_simp
  have source1: "AddStreamingLink_findOrCreateSource empty_repo_browser ''u1'' ''n''
                  (trim github_link) empty_store =
                (Inr (hd (streaming_sources store_with_source)), store_with_source)"
    by code_simp
  have none: "select_sources empty_store (trim github_link) = []"
    by code_simp
  from no_playable_content [OF github_link_valid github_link_parse fresh1 source1 scan] none
  have created: "AddStreamingLink_handleSubmit empty_repo_browser ''u1'' ''n'' github_link empty_store =
       (Inl NoPlayableContent, store_with_source)"
    "playlists store_with_source = playlists empty_store"
    "songs store_with_source = songs empty_store"
    "streaming_sources store_with_source =
       streaming_sources empty_store @ [hd (streaming_sources store_with_source)]"
    by simp_all
  show ?thesis
    using github_link_valid github_link_parse fresh scan existing fresh1 created by blast
qed

text \<open>The first import of a repository without content: the import fails and the source
  row is there.\<close>

theorem no_playable_content_counterexample:
  "scanRepositoryStructure empty_repo_browser ''a'' ''m'' = Inr []
   \<and> AddStreamingLink_handleSubmit empty_repo_browser ''u1'' ''n'' github_link empty_store =
       (Inl NoPlayableContent, store_with_source)
   \<and> streaming_sources empty_store = []
   \<and> length (streaming_sources store_with_source) = 1"
  by code_simp

text \<open>The three ways a refresh ends: the scan fails, nothing is new, or the new playlists
  are added and \<open>last_synced\<close> is written.\<close>

lemma refresh_scan_failed:
  assumes "parseGitHubUrl (drive_link source) = Some (owner, repo)"
    and "scanRepositoryStructure b owner repo = Inl scanError"
  shows "LibraryPage_handleRefreshSource b user source st = (Inl scanError, st)"
  using assms by (simp add: LibraryPage_handleRefreshSource_def)

lemma refresh_nothing_new:
  assumes "parseGitHubUrl (drive_link source) = Some (owner, repo)"
    and "scanRepositoryStructure b owner repo = Inr newPlaylists"
    and "\<forall>p \<in> set newPlaylists.
           p_path p \<in> set (map folder_path (select_playlists st (src_id source) user))"
  shows "LibraryPage_handleRefreshSource b user source st = (Inr NoNewPlaylists, st)"
proof -
  have "filter (\<lambda>p. p_path p \<notin> set (map folder_path (select_playlists st (src_id source) user)))
          newPlaylists = []"
    using assms(3) by (simp add: filter_empty_conv)
  then show ?thesis
    using assms(1,2) by (simp add: LibraryPage_handleRefreshSource_def Let_def)
qed

text \<open>
  C3, evaluated where the code departs from it. The user \<open>u1\<close> has imported \<open>a/m\<close>;
  the repository then gets a second directory. A refresh at time 10 adds one playlist
  with one song and sets \<open>last_synced\<close> to 10. A second refresh at time 20, with the
  repository unchanged, finds no new playlist, adds nothing and returns before the update
  of \<open>last_synced\<close>: the store is the same, \<open>last_synced\<close> is still 10.
\<close>

theorem refresh_without_new_playlists:
  "LibraryPage_handleRefreshSource (grown_browser 10) ''u1''
       (hd (streaming_sources store_after_first)) store_after_first =
     (Inr (AddedPlaylists 1 1), store_after_refresh)
   \<and> map last_synced (streaming_sources store_after_first) = [5]
   \<and> map last_synced (streaming_sources store_after_refresh) = [10]
   \<and> LibraryPage_handleRefreshSource (grown_browser 20) ''u1''
       (hd (streaming_sources store_after_refresh)) store_after_refresh =
     (Inr NoNewPlaylists, store_after_refresh)"
  by code_simp


text \<open>
  C4, as amended. For a scanned song whose generated link is the \<open>unique_link\<close> of a song
  that is in another playlist, the three paths do three different things. The bulk
  import's \<open>findOrCreateSong\<close> updates the existing song's \<open>playlist_id\<close> to the new
  playlist (when the store applies the write) and counts the song. The refresh's
  \<open>findOrCreateSong\<close> leaves the store as it is and returns nothing. The single import
  does not look the link up: it inserts a new row in the new playlist, whose link is the
  generated one followed by the user and the reading of \<open>Date.now()\<close>, whichever reading
  of the call that is (when no row has that link).
\<close>

theorem song_policy_of_each_path:
  assumes found: "select_song_single st (generateUniqueLink b owner repo (s_path song)) =
                    Some existingSong"
    and elsewhere: "playlist_id existingSong \<noteq> playlistId"
    and applied: "next_fault st = (False, st1)"
  shows "AdminBulkImport_findOrCreateSong b song playlistId (owner, repo) st =
           (Some (song_id existingSong),
            st1\<lparr>songs := map (\<lambda>s. if song_id s = song_id existingSong
                                    then s\<lparr>playlist_id := playlistId\<rparr> else s) (songs st1)\<rparr>)
     \<and> LibraryPage_findOrCreateSong playlistId
           \<lparr>sd_title = s_name song, sd_duration = 180, sd_file_path = s_downloadUrl song,
             sd_unique_link = generateUniqueLink b owner repo (s_path song)\<rparr> st =
           (Inr None, st)
     \<and> (generateUniqueLink b owner repo (s_path song) @ ''_'' @ user @ ''_'' @
           string_of_nat (Date_now b k) \<notin> set (map unique_link (songs st)) \<longrightarrow>
         AddStreamingLink_createSongs b user owner repo playlistId [song] k n st =
           (n + 1,
            st1\<lparr>songs := songs st1 @
                   [\<lparr>song_id = next_uuid st1, playlist_id = playlistId, title = s_name song,
                     duration = 180, file_path = s_downloadUrl song,
                     unique_link = generateUniqueLink b owner repo (s_path song) @ ''_'' @ user @
                       ''_'' @ string_of_nat (Date_now b k)\<rparr>],
                 next_uuid := next_uuid st1 + 1\<rparr>))"
proof (intro conjI impI)
  show "AdminBulkImport_findOrCreateSong b song playlistId (owner, repo) st =
           (Some (song_id existingSong),
            st1\<lparr>songs := map (\<lambda>s. if song_id s = song_id existingSong
                                    then s\<lparr>playlist_id := playlistId\<rparr> else s) (songs st1)\<rparr>)"
    using found applied
    by (simp add: AdminBulkImport_findOrCreateSong_def update_song_playlist_def)
next
  show "LibraryPage_findOrCreateSong playlistId
           \<lparr>sd_title = s_name song, sd_duration = 180, sd_file_path = s_downloadUrl song,
             sd_unique_link = generateUniqueLink b owner repo (s_path song)\<rparr> st =
           (Inr None, st)"
    using found elsewhere by (simp add: LibraryPage_findOrCreateSong_def)
next
  assume "generateUniqueLink b owner repo (s_path song) @ ''_'' @ user @ ''_'' @
           string_of_nat (Date_now b k) \<notin> set (map unique_link (songs st))"
  moreover have "songs st1 = songs st"
    using next_fault_frame [OF applied] by simp
  ultimately show "AddStreamingLink_createSongs b user owner repo playlistId [song] k n st =
           (n + 1,
            st1\<lparr>songs := songs st1 @
                   [\<lparr>song_id = next_uuid st1, playlist_id = playlistId, title = s_name song,
                     duration = 180, file_path = s_downloadUrl song,
                     unique_link = generateUniqueLink b owner repo (s_path song) @ ''_'' @ user @
                       ''_'' @ string_of_nat (Date_now b k)\<rparr>],
                 next_uuid := next_uuid st1 + 1\<rparr>)"
    using applied by (simp add: insert_song_def Let_def)
qed

theorem song_policy_of_each_path_witness:
  "select_song_single store_shared (generateUniqueLink (small_browser 7) ''a'' ''m'' (s_path scanned_x)) =
     Some (hd (songs store_shared))
   \<and> playlist_id (hd (songs store_shared)) \<noteq> 3
   \<and> next_fault store_shared = (False, store_shared)
   \<and> map playlist_id (songs (snd (AdminBulkImport_findOrCreateSong (small_browser 7) scanned_x 3
          (''a'', ''m'') store_shared))) = [3]
   \<and> LibraryPage_findOrCreateSong 3
         \<lparr>sd_title = s_name scanned_x, sd_duration = 180, sd_file_path = s_downloadUrl scanned_x,
           sd_unique_link = generateUniqueLink (small_browser 7) ''a'' ''m'' (s_path scanned_x)\<rparr>
         store_shared = (Inr None, store_shared)
   \<and> map playlist_id (songs (snd (AddStreamingLink_createSongs (small_browser 7) ''u1'' ''a'' ''m'' 3
          [scanned_x] 0 0 store_shared))) = [1, 3]"
proof -
  have found: "select_song_single store_shared
       (generateUniqueLink (small_browser 7) ''a'' ''m'' (s_path scanned_x)) =
     Some (hd (songs store_shared))"
    by code_simp
  have elsewhere: "playlist_id (hd (songs store_shared)) \<noteq> 3"
    by code_simp
  have applied: "next_fault store_shared = (False, store_shared)"
    by code_simp
  have fresh: "generateUniqueLink (small_browser 7) ''a'' ''m'' (s_path scanned_x) @ ''_'' @ ''u1'' @
      ''_'' @ string_of_nat (Date_now (small_browser 7) 0) \<notin>
        set (map unique_link (songs store_shared))"
    by code_simp
  note inst = song_policy_of_each_path [OF found elsewhere applied,
      where user = "''u1''" and k = 0 and n = 0]
  have a: "map playlist_id (songs (snd (AdminBulkImport_findOrCreateSong (small_browser 7) scanned_x 3
          (''a'', ''m'') store_shared))) = [3]"
    using inst by (simp add: store_shared_def)
  have b: "LibraryPage_findOrCreateSong 3
         \<lparr>sd_title = s_name scanned_x, sd_duration = 180, sd_file_path = s_downloadUrl scanned_x,
           sd_unique_link = generateUniqueLink (small_browser 7) ''a'' ''m'' (s_path scanned_x)\<rparr>
         store_shared = (Inr None, store_shared)"
    using inst by blast
  have c: "map playlist_id (songs (snd (AddStreamingLink_createSongs (small_browser 7) ''u1'' ''a'' ''m'' 3
          [scanned_x] 0 0 store_shared))) = [1, 3]"
    using inst fresh by (simp add: store_shared_def)
  show ?thesis
    using found elsewhere applied a b c by blast
qed

text \<open>One store, one song already in playlist 1, the new playlist 3: the song ends in
  playlist 3 (bulk import), stays in playlist 1 (refresh), or is there twice (single
  import).\<close>

theorem song_policy_counterexample:
  "select_song_single store_shared (generateUniqueLink (small_browser 7) ''a'' ''m'' ''R/x.mp3'') =
     Some (hd (songs store_shared))
   \<and> map playlist_id (songs store_shared) = [1]
   \<and> map playlist_id (songs (snd (AdminBulkImport_findOrCreateSong (small_browser 7) scanned_x 3
          (''a'', ''m'') store_shared))) = [3]
   \<and> map playlist_id (songs (snd (LibraryPage_findOrCreateSong 3
         \<lparr>sd_title = ''X'', sd_duration = 180, sd_file_path = ''raw/x'',
           sd_unique_link = generateUniqueLink (small_browser 7) ''a'' ''m'' ''R/x.mp3''\<rparr>
         store_shared))) = [1]
   \<and> map playlist_id (songs (snd (AddStreamingLink_createSongs (small_browser 7) ''u1'' ''a'' ''m'' 3
          [scanned_x] 0 0 store_shared))) = [1, 3]"
  by code_simp

text \<open>
  C5, as amended. On AddStreamingLinkModal, for a link that passes the format check: when
  the first source with the (trimmed) link has a playlist of the user, whatever its folder
  path, the import fails with \<open>AlreadyImported\<close> and leaves the store exactly as it was:
  no source, playlist or song is added. In particular, after an import that succeeded and
  created a playlist, the same user's import of the same link is refused in this way. The
  guard belongs to this path only: the bulk import has none (see the example after the
  theorem).
\<close>

theorem already_imported:
  "(select_sources st (trim githubLink) = sourceData # others \<and>
    list_ex (\<lambda>p. source_id p = src_id sourceData \<and> user_id p = user) (playlists st) \<and>
    githubUrlPattern_test (trim githubLink) \<longrightarrow>
      AddStreamingLink_handleSubmit b user name githubLink st = (Inl AlreadyImported, st))
   \<and> (AddStreamingLink_handleSubmit b1 user name1 githubLink st0 =
        (Inr (totalPlaylistsCreated, totalSongsCreated), st) \<and>
      0 < totalPlaylistsCreated \<longrightarrow>
      AddStreamingLink_handleSubmit b user name githubLink st = (Inl AlreadyImported, st))"
proof (intro conjI impI)
  assume a: "select_sources st (trim githubLink) = sourceData # others \<and>
    list_ex (\<lambda>p. source_id p = src_id sourceData \<and> user_id p = user) (playlists st) \<and>
    githubUrlPattern_test (trim githubLink)"
  then have valid: "githubUrlPattern_test (trim githubLink)"
    by simp
  from valid_url_parses [OF this] obtain owner repo where
    parse: "parseGitHubUrl (trim githubLink) = Some (owner, repo)" by blast
  have "sourceData \<in> set (select_sources st (trim githubLink))"
    using a by simp
  then have "sourceData \<in> set (select_sources_of_user st (trim githubLink) user)"
    using a by (simp add: select_sources_def select_sources_of_user_def)
  then have "select_sources_of_user st (trim githubLink) user \<noteq> []"
    by auto
  then show "AddStreamingLink_handleSubmit b user name githubLink st = (Inl AlreadyImported, st)"
    using valid parse by (simp add: AddStreamingLink_handleSubmit_def)
next
  assume a: "AddStreamingLink_handleSubmit b1 user name1 githubLink st0 =
        (Inr (totalPlaylistsCreated, totalSongsCreated), st) \<and>
      0 < totalPlaylistsCreated"
  then have run: "AddStreamingLink_handleSubmit b1 user name1 githubLink st0 =
        (Inr (totalPlaylistsCreated, totalSongsCreated), st)"
    by simp
  from AddStreamingLink_handleSubmit_Inr [OF run] obtain owner repo sourceData st1 found where
    valid: "githubUrlPattern_test (trim githubLink)"
    and parse: "parseGitHubUrl (trim githubLink) = Some (owner, repo)"
    and src: "AddStreamingLink_findOrCreateSource b1 user name1 (trim githubLink) st0 =
             (Inr sourceData, st1)"
    and loop: "AddStreamingLink_createPlaylists b1 user (src_id sourceData) owner repo found 0
                 (0, 0) st1 = ((totalPlaylistsCreated, totalSongsCreated), st)"
    by blast
  from AddStreamingLink_createPlaylists_written [OF loop] a obtain p where
    same: "streaming_sources st = streaming_sources st1"
    and p: "p \<in> set (playlists st)" "user_id p = user" "source_id p = src_id sourceData"
    by auto
  have "sourceData \<in> set (streaming_sources st) \<and> drive_link sourceData = trim githubLink"
    using AddStreamingLink_findOrCreateSource_found [OF src] same by simp
  moreover have "list_ex (\<lambda>p. source_id p = src_id sourceData \<and> user_id p = user) (playlists st)"
    using p by (auto simp: list_ex_iff)
  ultimately have "sourceData \<in> set (select_sources_of_user st (trim githubLink) user)"
    by (simp add: select_sources_of_user_def)
  then have "select_sources_of_user st (trim githubLink) user \<noteq> []"
    by auto
  then show "AddStreamingLink_handleSubmit b user name githubLink st = (Inl AlreadyImported, st)"
    using valid parse by (simp add: AddStreamingLink_handleSubmit_def)
qed

theorem already_imported_witness:
  "select_sources store_after_first (trim github_link) = hd (streaming_sources store_after_first) # []
   \<and> list_ex (\<lambda>p. source_id p = src_id (hd (streaming_sources store_after_first)) \<and>
                  user_id p = ''u1'') (playlists store_after_first)
   \<and> githubUrlPattern_test (trim github_link)
   \<and> AddStreamingLink_handleSubmit (small_browser 5) ''u1'' ''n'' github_link empty_store =
        (Inr (1, 1), store_after_first)
   \<and> AddStreamingLink_handleSubmit (small_browser 6) ''u1'' ''other name'' github_link
        store_after_first = (Inl AlreadyImported, store_after_first)"
proof -
  have resolved: "select_sources store_after_first (trim github_link) =
                    hd (streaming_sources store_after_first) # []"
    by code_simp
  have owns: "list_ex (\<lambda>p. source_id p = src_id (hd (streaming_sources store_after_first)) \<and>
                  user_id p = ''u1'') (playlists store_after_first)"
    by code_simp
  note inst = already_imported [where st = store_after_first and githubLink = github_link
      and sourceData = "hd (streaming_sources store_after_first)" and others = "[]"
      and user = "''u1''" and b = "small_browser 6" and name = "''other name''"
      and ?b1.0 = "small_browser 5" and ?name1.0 = "''n''" and ?st0.0 = empty_store
      and totalPlaylistsCreated = 1 and totalSongsCreated = 1]
  have "AddStreamingLink_handleSubmit (small_browser 6) ''u1'' ''other name'' github_link
        store_after_first = (Inl AlreadyImported, store_after_first)"
    using inst resolved owns github_link_valid by blast
  moreover have "AddStreamingLink_handleSubmit (small_browser 6) ''u1'' ''other name'' github_link
        store_after_first = (Inl AlreadyImported, store_after_first)"
    using inst first_import by simp
  ultimately show ?thesis
    using resolved owns github_link_valid first_import by blast
qed

text \<open>The user \<open>u1\<close> has imported \<open>a/m\<close> and owns a playlist of its source. The bulk
  import of the same link by \<open>u1\<close> is not refused: it reports one playlist, and the store
  has a second playlist of \<open>u1\<close> for the source and a second song.\<close>

theorem already_imported_counterexample:
  "select_sources store_after_first (trim github_link) = [hd (streaming_sources store_after_first)]
   \<and> list_ex (\<lambda>p. source_id p = src_id (hd (streaming_sources store_after_first)) \<and>
                  user_id p = ''u1'') (playlists store_after_first)
   \<and> AdminBulkImport_processRepository (small_browser 6) ''u1'' github_link store_after_first =
       (Inr 1, store_after_bulk)
   \<and> length (select_playlists store_after_first 0 ''u1'') = 1
   \<and> length (select_playlists store_after_bulk 0 ''u1'') = 2
   \<and> length (songs store_after_first) = 1
   \<and> length (songs store_after_bulk) = 2"
  by code_simp

end
